theory Spec2Isabelle
  imports Main "HOL-Library.Word"
begin

unbundle bit_operations_syntax

section \<open>Job and node state words (slurm\_protocol\_defs.h)\<close>

text \<open>
  The state predicates of \<^verbatim>\<open>src/common/slurm_protocol_defs.h\<close> are macros over the
  field \<^verbatim>\<open>job_state\<close> of a job record and \<^verbatim>\<open>node_state\<close> of a node record: a
  base state in the low bits, modifier flags OR-ed on top.  The enumerations and masks
  they mention are declared in the public header \<^verbatim>\<open>slurm/slurm.h\<close>; the base states
  are numbered in the order of their enumeration (Pending, Running, Suspended, Complete,
  Cancelled, Failed, Timeout, NodeFail for jobs; Unknown, Down, Idle, Allocated, Error,
  Mixed, Future for nodes).  None of the theorems about the macros unfolds a constant.
\<close>

type_synonym uint16_t = "16 word"
type_synonym uint32_t = "32 word"
type_synonym uint64_t = "64 word"
type_synonym uid_t = "32 word"

definition JOB_PENDING :: uint16_t where "JOB_PENDING = 0"
definition JOB_SUSPENDED :: uint16_t where "JOB_SUSPENDED = 2"
definition JOB_CANCELLED :: uint16_t where "JOB_CANCELLED = 4"
definition JOB_FAILED :: uint16_t where "JOB_FAILED = 5"
definition JOB_TIMEOUT :: uint16_t where "JOB_TIMEOUT = 6"
definition JOB_NODE_FAIL :: uint16_t where "JOB_NODE_FAIL = 7"
definition JOB_STATE_BASE :: uint16_t where "JOB_STATE_BASE = 0x00ff"
definition JOB_CONFIGURING :: uint16_t where "JOB_CONFIGURING = 0x4000"
definition JOB_COMPLETING :: uint16_t where "JOB_COMPLETING = 0x8000"

definition NODE_STATE_UNKNOWN :: uint16_t where "NODE_STATE_UNKNOWN = 0"
definition NODE_STATE_DOWN :: uint16_t where "NODE_STATE_DOWN = 1"
definition NODE_STATE_IDLE :: uint16_t where "NODE_STATE_IDLE = 2"
definition NODE_STATE_ALLOCATED :: uint16_t where "NODE_STATE_ALLOCATED = 3"
definition NODE_STATE_ERROR :: uint16_t where "NODE_STATE_ERROR = 4"
definition NODE_STATE_MIXED :: uint16_t where "NODE_STATE_MIXED = 5"
definition NODE_STATE_FUTURE :: uint16_t where "NODE_STATE_FUTURE = 6"
definition NODE_STATE_BASE :: uint16_t where "NODE_STATE_BASE = 0x000f"
definition NODE_STATE_DRAIN :: uint16_t where "NODE_STATE_DRAIN = 0x0200"

text \<open>A C integer used as a condition is true when it is not zero.\<close>

definition c_true :: "'a::len word \<Rightarrow> bool" where
  "c_true w = (w \<noteq> 0)"

definition IS_JOB_PENDING :: "uint16_t \<Rightarrow> bool" where
  "IS_JOB_PENDING job_state = ((job_state AND JOB_STATE_BASE) = JOB_PENDING)"


definition IS_JOB_STARTED :: "uint16_t \<Rightarrow> bool" where
  "IS_JOB_STARTED job_state = ((job_state AND JOB_STATE_BASE) > JOB_PENDING)"

definition IS_JOB_FINISHED :: "uint16_t \<Rightarrow> bool" where
  "IS_JOB_FINISHED job_state = ((job_state AND JOB_STATE_BASE) > JOB_SUSPENDED)"

definition IS_JOB_COMPLETED :: "uint16_t \<Rightarrow> bool" where
  "IS_JOB_COMPLETED job_state =
     (IS_JOB_FINISHED job_state \<and> ((job_state AND JOB_COMPLETING) = 0))"

definition IS_NODE_ALLOCATED :: "uint16_t \<Rightarrow> bool" where
  "IS_NODE_ALLOCATED node_state = ((node_state AND NODE_STATE_BASE) = NODE_STATE_ALLOCATED)"

definition IS_NODE_ERROR :: "uint16_t \<Rightarrow> bool" where
  "IS_NODE_ERROR node_state = ((node_state AND NODE_STATE_BASE) = NODE_STATE_ERROR)"

definition IS_NODE_MIXED :: "uint16_t \<Rightarrow> bool" where
  "IS_NODE_MIXED node_state = ((node_state AND NODE_STATE_BASE) = NODE_STATE_MIXED)"

definition IS_NODE_DRAIN :: "uint16_t \<Rightarrow> bool" where
  "IS_NODE_DRAIN node_state = c_true (node_state AND NODE_STATE_DRAIN)"

definition IS_NODE_DRAINING :: "uint16_t \<Rightarrow> bool" where
  "IS_NODE_DRAINING node_state =
     (c_true (node_state AND NODE_STATE_DRAIN)
      \<and> (IS_NODE_ALLOCATED node_state \<or> IS_NODE_ERROR node_state \<or> IS_NODE_MIXED node_state))"

definition IS_NODE_DRAINED :: "uint16_t \<Rightarrow> bool" where
  "IS_NODE_DRAINED node_state = (IS_NODE_DRAIN node_state \<and> \<not> IS_NODE_DRAINING node_state)"

text \<open>The words of the specification: base state and flags of a state word.\<close>

definition job_base_state :: "uint16_t \<Rightarrow> uint16_t" where
  "job_base_state job_state = job_state AND JOB_STATE_BASE"

definition job_flag_set :: "uint16_t \<Rightarrow> uint16_t \<Rightarrow> bool" where
  "job_flag_set flag job_state = (job_state AND flag \<noteq> 0)"

definition node_base_state :: "uint16_t \<Rightarrow> uint16_t" where
  "node_base_state node_state = node_state AND NODE_STATE_BASE"

definition node_flag_set :: "uint16_t \<Rightarrow> uint16_t \<Rightarrow> bool" where
  "node_flag_set flag node_state = (node_state AND flag \<noteq> 0)"


section \<open>Return codes, callers and the trace of a handler (proc\_req.c)\<close>

text \<open>
  The return codes that the handlers of \<^verbatim>\<open>proc_req.c\<close> name are enumerators of
  \<^verbatim>\<open>slurm/slurm_errno.h\<close> and of \<^verbatim>\<open>errno.h\<close>.  The handlers only compare them with
  each other, so each named code is a constructor; \<open>Errno n\<close> is any code that the
  handlers do not name.
\<close>

datatype slurm_errno =
    SLURM_SUCCESS
  | SLURM_ERROR
  | EINVAL
  | EAGAIN
  | EINPROGRESS
  | SLURM_COMMUNICATIONS_SEND_ERROR
  | ESLURM_ACCESS_DENIED
  | ESLURM_USER_ID_MISSING
  | ESLURM_DUPLICATE_JOB_ID
  | ESLURM_REQUESTED_PART_CONFIG_UNAVAILABLE
  | ESLURM_INVALID_NODE_NAME
  | ESLURM_ALREADY_DONE
  | ESLURM_JOB_HELD
  | ESLURM_RESERVATION_BUSY
  | ESLURM_RESERVATION_NOT_USABLE
  | ESLURM_NO_STEPS
  | ESLURM_NODE_NOT_AVAIL
  | ESLURM_QOS_THRES
  | ESLURM_CAN_NOT_START_IMMEDIATELY
  | ESLURMD_INVALID_ACCT_FREQ
  | ESLURMD_UID_NOT_FOUND
  | ESLURMD_GID_NOT_FOUND
  | ESLURMD_CREDENTIAL_REVOKED
  | Errno nat

text \<open>
  The administrator levels of the accounting database (\<^verbatim>\<open>slurm/slurmdb.h\<close>), in the
  order of their enumeration; the handlers compare them with \<^verbatim>\<open>>=\<close>.
\<close>

datatype slurmdb_admin_level_t =
    SLURMDB_ADMIN_NOTSET
  | SLURMDB_ADMIN_NONE
  | SLURMDB_ADMIN_OPERATOR
  | SLURMDB_ADMIN_SUPER_USER

fun admin_level_num :: "slurmdb_admin_level_t \<Rightarrow> nat" where
  "admin_level_num SLURMDB_ADMIN_NOTSET = 0"
| "admin_level_num SLURMDB_ADMIN_NONE = 1"
| "admin_level_num SLURMDB_ADMIN_OPERATOR = 2"
| "admin_level_num SLURMDB_ADMIN_SUPER_USER = 3"

text \<open>
  What the daemon reads from its process and from the association manager:
  \<^verbatim>\<open>getuid()\<close> and \<^verbatim>\<open>assoc_mgr_get_admin_level(acct_db_conn, uid)\<close>.
\<close>

record ctld_env =
  getuid :: uid_t
  assoc_mgr_get_admin_level :: "uid_t \<Rightarrow> slurmdb_admin_level_t"

definition validate_slurm_user :: "ctld_env \<Rightarrow> uid_t \<Rightarrow> bool" where
  "validate_slurm_user env uid =
     (if (uid = 0) \<or> (uid = getuid env) then True else False)"

definition validate_super_user :: "ctld_env \<Rightarrow> uid_t \<Rightarrow> bool" where
  "validate_super_user env uid =
     (if (uid = 0) \<or> (uid = getuid env)
         \<or> admin_level_num (assoc_mgr_get_admin_level env uid)
              \<ge> admin_level_num SLURMDB_ADMIN_SUPER_USER
      then True else False)"

definition validate_operator :: "ctld_env \<Rightarrow> uid_t \<Rightarrow> bool" where
  "validate_operator env uid =
     (if (uid = 0) \<or> (uid = getuid env)
         \<or> admin_level_num (assoc_mgr_get_admin_level env uid)
              \<ge> admin_level_num SLURMDB_ADMIN_OPERATOR
      then True else False)"

text \<open>
  The build of the daemon: the preprocessor symbols that select between alternative
  bodies inside the handlers.
\<close>

record build_cfg =
  HAVE_FRONT_END :: bool
  HAVE_BG :: bool
  HAVE_BGQ :: bool
  HAVE_ALPS_CRAY :: bool

text \<open>
  Items written to a pack buffer.  \<^verbatim>\<open>packN_array(valp, size_val, buffer)\<close> of
  \<^verbatim>\<open>src/common/pack.c\<close> is given the base address of an array and a count: it writes
  the elements \<^verbatim>\<open>valp[0]\<close> to \<^verbatim>\<open>valp[size_val - 1]\<close>.
\<close>

datatype packed =
    Pack32 uint32_t
  | Pack16_array "uint16_t list"
  | Pack32_array "uint32_t list"
  | Pack64_array "uint64_t list"

definition pack32 :: "nat \<Rightarrow> packed list \<Rightarrow> packed list" where
  "pack32 val buffer = buffer @ [Pack32 (of_nat val)]"

definition pack16_array :: "uint16_t list \<Rightarrow> nat \<Rightarrow> packed list \<Rightarrow> packed list" where
  "pack16_array valp size_val buffer = buffer @ [Pack16_array (take size_val valp)]"

definition pack32_array :: "uint32_t list \<Rightarrow> nat \<Rightarrow> packed list \<Rightarrow> packed list" where
  "pack32_array valp size_val buffer = buffer @ [Pack32_array (take size_val valp)]"

definition pack64_array :: "uint64_t list \<Rightarrow> nat \<Rightarrow> packed list \<Rightarrow> packed list" where
  "pack64_array valp size_val buffer = buffer @ [Pack64_array (take size_val valp)]"

text \<open>
  What a handler sends on the connection of the request: a return-code message
  (\<^verbatim>\<open>slurm_send_rc_msg\<close>, \<^verbatim>\<open>slurm_send_rc_err_msg\<close>) or the response message of its
  request type (\<^verbatim>\<open>slurm_send_node_msg\<close>), with the fields the handler fills in.
\<close>

datatype response =
    Rc_msg slurm_errno
  | Rc_err_msg slurm_errno string
  | RESPONSE_RESOURCE_ALLOCATION slurm_errno uint32_t
  | RESPONSE_SUBMIT_BATCH_JOB uint32_t uint32_t slurm_errno
  | RESPONSE_CREATE_RESERVATION string
  | RESPONSE_STATS_INFO "packed list"

text \<open>
  The trace of a handler: the messages it sends and the calls it makes into the rest of
  the daemon, in program order; a call is written with the name of the C function and
  the arguments that the handler chooses.  Locking, throttling, timers, log output,
  memory management and the read-only look-ups (\<^verbatim>\<open>find_job_record\<close>,
  \<^verbatim>\<open>validate_job_create_req\<close>, \<^verbatim>\<open>dump_job_desc\<close>) leave no entry.
\<close>

datatype arg =
    U16 uint16_t
  | U32 uint32_t
  | I32 int
  | Str string
  | Flag bool
  | Null

datatype action =
    Send response
  | Call string "arg list"

fun is_send :: "action \<Rightarrow> bool" where
  "is_send (Send r) = True"
| "is_send (Call f args) = False"

definition responses :: "action list \<Rightarrow> action list" where
  "responses tr = filter is_send tr"

section \<open>RPC telemetry tables (proc\_req.c)\<close>

text \<open>
  The static arrays \<^verbatim>\<open>rpc_type_*\<close> and \<^verbatim>\<open>rpc_user_*\<close> with their sizes.  A size
  of 0 is the state before the first request and after \<^verbatim>\<open>free_rpc_stats\<close>: the
  arrays are not allocated.  \<^verbatim>\<open>xmalloc\<close> returns zero-filled memory.
\<close>

record rpc_stats =
  rpc_type_size :: nat
  rpc_type_id :: "uint16_t list"
  rpc_type_cnt :: "uint32_t list"
  rpc_type_time :: "uint64_t list"
  rpc_user_size :: nat
  rpc_user_id :: "uint32_t list"
  rpc_user_cnt :: "uint32_t list"
  rpc_user_time :: "uint64_t list"

definition rpc_stats_init :: rpc_stats where
  "rpc_stats_init =
     \<lparr>rpc_type_size = 0, rpc_type_id = [], rpc_type_cnt = [], rpc_type_time = [],
      rpc_user_size = 0, rpc_user_id = [], rpc_user_cnt = [], rpc_user_time = []\<rparr>"

definition xmalloc :: "nat \<Rightarrow> 'a::len word list" where
  "xmalloc n = replicate n 0"

definition alloc_rpc_type :: "rpc_stats \<Rightarrow> rpc_stats" where
  "alloc_rpc_type st =
     (if rpc_type_size st = 0
      then st\<lparr>rpc_type_size := 100, rpc_type_id := xmalloc 100,
              rpc_type_cnt := xmalloc 100, rpc_type_time := xmalloc 100\<rparr>
      else st)"

definition alloc_rpc_user :: "rpc_stats \<Rightarrow> rpc_stats" where
  "alloc_rpc_user st =
     (if rpc_user_size st = 0
      then st\<lparr>rpc_user_size := 200, rpc_user_id := xmalloc 200,
              rpc_user_cnt := xmalloc 200, rpc_user_time := xmalloc 200\<rparr>
      else st)"

text \<open>
  The two slot scans of \<^verbatim>\<open>slurmctld_req\<close>: the loop from index \<open>i\<close>, returning the
  id array and the index found, or -1.
\<close>

function type_slot_scan :: "uint16_t list \<Rightarrow> nat \<Rightarrow> uint16_t \<Rightarrow> nat \<Rightarrow> uint16_t list \<times> int" where
  "type_slot_scan ids n msg_type i =
     (if i < n then
        (if ids ! i = 0 then (ids[i := msg_type], int i)
         else if ids ! i \<noteq> msg_type then type_slot_scan ids n msg_type (i + 1)
         else (ids, int i))
      else (ids, -1))"
  by pat_completeness auto
termination
  by (relation "measure (\<lambda>(ids, n, msg_type, i). n - i)") auto

declare type_slot_scan.simps [simp del]

function user_slot_scan :: "uint32_t list \<Rightarrow> nat \<Rightarrow> uint32_t \<Rightarrow> nat \<Rightarrow> uint32_t list \<times> int" where
  "user_slot_scan ids n rpc_uid i =
     (if i < n then
        (if (ids ! i = 0) \<and> (i \<noteq> 0) then (ids[i := rpc_uid], int i)
         else if ids ! i \<noteq> rpc_uid then user_slot_scan ids n rpc_uid (i + 1)
         else (ids, int i))
      else (ids, -1))"
  by pat_completeness auto
termination
  by (relation "measure (\<lambda>(ids, n, rpc_uid, i). n - i)") auto

declare user_slot_scan.simps [simp del]

text \<open>\<^verbatim>\<open>_clear_rpc_stats\<close>: the two loops, from index \<open>i\<close>.\<close>

function clear_type_loop :: "nat \<Rightarrow> rpc_stats \<Rightarrow> rpc_stats" where
  "clear_type_loop i st =
     (if i < rpc_type_size st then
        clear_type_loop (i + 1)
          (st\<lparr>rpc_type_cnt := (rpc_type_cnt st)[i := 0],
              rpc_type_id := (rpc_type_id st)[i := 0],
              rpc_type_time := (rpc_type_time st)[i := 0]\<rparr>)
      else st)"
  by pat_completeness auto
termination
  by (relation "measure (\<lambda>(i, st). rpc_type_size st - i)") auto

declare clear_type_loop.simps [simp del]

function clear_user_loop :: "nat \<Rightarrow> rpc_stats \<Rightarrow> rpc_stats" where
  "clear_user_loop i st =
     (if i < rpc_user_size st then
        clear_user_loop (i + 1)
          (st\<lparr>rpc_user_cnt := (rpc_user_cnt st)[i := 0],
              rpc_user_id := (rpc_user_id st)[i := 0],
              rpc_user_time := (rpc_user_time st)[i := 0]\<rparr>)
      else st)"
  by pat_completeness auto
termination
  by (relation "measure (\<lambda>(i, st). rpc_user_size st - i)") auto

declare clear_user_loop.simps [simp del]

definition clear_rpc_stats :: "rpc_stats \<Rightarrow> rpc_stats" where
  "clear_rpc_stats st = clear_user_loop 0 (clear_type_loop 0 st)"

text \<open>
  \<^verbatim>\<open>_pack_rpc_stats\<close>: each of its two loops stops at the first index, from its
  starting index on, whose id is 0, or at the size of the table.
\<close>

function used_scan :: "'a::len word list \<Rightarrow> nat \<Rightarrow> nat \<Rightarrow> nat" where
  "used_scan ids n i =
     (if i < n then (if ids ! i = 0 then i else used_scan ids n (i + 1)) else i)"
  by pat_completeness auto
termination
  by (relation "measure (\<lambda>(ids, n, i). n - i)") auto

declare used_scan.simps [simp del]

definition SLURM_14_11_PROTOCOL_VERSION :: uint16_t where
  "SLURM_14_11_PROTOCOL_VERSION = push_bit 8 28 OR 0"

definition pack_rpc_stats :: "rpc_stats \<Rightarrow> uint16_t \<Rightarrow> packed list \<Rightarrow> packed list" where
  "pack_rpc_stats st protocol_version buffer =
     (if protocol_version < SLURM_14_11_PROTOCOL_VERSION then buffer
      else
        let i = used_scan (rpc_type_id st) (rpc_type_size st) 0;
            buffer = pack32 i buffer;
            buffer = pack16_array (rpc_type_id st) i buffer;
            buffer = pack32_array (rpc_type_cnt st) i buffer;
            buffer = pack64_array (rpc_type_time st) i buffer;
            i = used_scan (rpc_user_id st) (rpc_user_size st) 1;
            buffer = pack32 i buffer;
            buffer = pack32_array (rpc_user_id st) i buffer;
            buffer = pack32_array (rpc_user_cnt st) i buffer;
            buffer = pack64_array (rpc_user_time st) i buffer
        in buffer)"

text \<open>
  The request as the dispatcher and the handlers read it: whether the authentication
  plugin accepted the credential, the uid it carries, the request type and the protocol
  version.
\<close>

record slurm_msg =
  auth_ok :: bool
  auth_uid :: uid_t
  msg_type :: uint16_t
  protocol_version :: uint16_t


record stats_info_request_msg =
  command_id :: uint16_t

definition STAT_COMMAND_RESET :: uint16_t where "STAT_COMMAND_RESET = 0"
definition STAT_COMMAND_GET :: uint16_t where "STAT_COMMAND_GET = 1"

text \<open>
  \<^verbatim>\<open>_slurm_rpc_dump_stats\<close>.  \<open>all_stat\<close> is the buffer that \<^verbatim>\<open>pack_all_stat\<close>
  hands over; \<^verbatim>\<open>_pack_rpc_stats\<close> appends to it.
\<close>

definition slurm_rpc_dump_stats ::
  "ctld_env \<Rightarrow> slurm_msg \<Rightarrow> stats_info_request_msg \<Rightarrow> packed list \<Rightarrow> rpc_stats
     \<Rightarrow> rpc_stats \<times> action list" where
  "slurm_rpc_dump_stats env msg request_msg all_stat st =
     (let uid = auth_uid msg in
      if (command_id request_msg = STAT_COMMAND_RESET) \<and> \<not> validate_slurm_user env uid
      then (st, [Send (Rc_msg ESLURM_ACCESS_DENIED)])
      else if command_id request_msg = STAT_COMMAND_RESET then
        (let st = clear_rpc_stats st;
             dump = pack_rpc_stats st (protocol_version msg) all_stat
         in (st, [Call ''reset_stats'' [I32 1], Send (RESPONSE_STATS_INFO dump)]))
      else
        (let dump = pack_rpc_stats st (protocol_version msg) all_stat
         in (st, [Send (RESPONSE_STATS_INFO dump)])))"

text \<open>Request types (\<^verbatim>\<open>slurm_msg_type_t\<close> of slurm\_protocol\_defs.h).\<close>

definition MESSAGE_NODE_REGISTRATION_STATUS :: uint16_t where
  "MESSAGE_NODE_REGISTRATION_STATUS = 1002"
definition REQUEST_RECONFIGURE :: uint16_t where "REQUEST_RECONFIGURE = 1003"
definition REQUEST_SHUTDOWN :: uint16_t where "REQUEST_SHUTDOWN = 1005"
definition REQUEST_SHUTDOWN_IMMEDIATE :: uint16_t where "REQUEST_SHUTDOWN_IMMEDIATE = 1006"
definition REQUEST_PING :: uint16_t where "REQUEST_PING = 1008"
definition REQUEST_CONTROL :: uint16_t where "REQUEST_CONTROL = 1009"
definition REQUEST_STATS_INFO :: uint16_t where "REQUEST_STATS_INFO = 2035"
definition REQUEST_UPDATE_NODE :: uint16_t where "REQUEST_UPDATE_NODE = 3002"
definition REQUEST_CREATE_PARTITION :: uint16_t where "REQUEST_CREATE_PARTITION = 3003"
definition REQUEST_DELETE_PARTITION :: uint16_t where "REQUEST_DELETE_PARTITION = 3004"
definition REQUEST_UPDATE_PARTITION :: uint16_t where "REQUEST_UPDATE_PARTITION = 3005"
definition REQUEST_CREATE_RESERVATION :: uint16_t where "REQUEST_CREATE_RESERVATION = 3006"
definition REQUEST_DELETE_RESERVATION :: uint16_t where "REQUEST_DELETE_RESERVATION = 3008"
definition REQUEST_UPDATE_RESERVATION :: uint16_t where "REQUEST_UPDATE_RESERVATION = 3009"
definition REQUEST_STEP_COMPLETE :: uint16_t where "REQUEST_STEP_COMPLETE = 5016"
definition REQUEST_COMPLETE_BATCH_SCRIPT :: uint16_t where "REQUEST_COMPLETE_BATCH_SCRIPT = 5018"
definition REQUEST_COMPLETE_BATCH_JOB :: uint16_t where "REQUEST_COMPLETE_BATCH_JOB = 5030"

text \<open>
  \<^verbatim>\<open>slurmctld_req\<close>, the telemetry it keeps: \<open>rpc_slot_lookup\<close> is its first block
  under \<^verbatim>\<open>rpc_mutex\<close>, \<open>rpc_type_update\<close> and \<open>rpc_user_update\<close> its second.  Of the handlers that its switch calls
  only \<^verbatim>\<open>_slurm_rpc_dump_stats\<close> writes the tables, so the switch is
  \<open>rpc_switch_stats\<close> here; \<open>data\<close> is the body of a statistics request and is not
  read for any other request type.  \<open>DELTA_TIMER\<close> is the time measured around the
  switch.
\<close>

definition rpc_switch_stats ::
  "ctld_env \<Rightarrow> slurm_msg \<Rightarrow> stats_info_request_msg \<Rightarrow> packed list \<Rightarrow> rpc_stats \<Rightarrow> rpc_stats" where
  "rpc_switch_stats env msg data all_stat st =
     (if msg_type msg = REQUEST_STATS_INFO
      then fst (slurm_rpc_dump_stats env msg data all_stat st)
      else st)"

definition rpc_slot_lookup :: "rpc_stats \<Rightarrow> uint16_t \<Rightarrow> uint32_t \<Rightarrow> rpc_stats \<times> int \<times> int" where
  "rpc_slot_lookup st rpc_msg_type rpc_uid =
     (let st = alloc_rpc_type st;
          (ids, rpc_type_index) =
             type_slot_scan (rpc_type_id st) (rpc_type_size st) rpc_msg_type 0;
          st = st\<lparr>rpc_type_id := ids\<rparr>;
          st = alloc_rpc_user st;
          (uids, rpc_user_index) =
             user_slot_scan (rpc_user_id st) (rpc_user_size st) rpc_uid 0;
          st = st\<lparr>rpc_user_id := uids\<rparr>
      in (st, rpc_type_index, rpc_user_index))"

definition rpc_type_update :: "rpc_stats \<Rightarrow> int \<Rightarrow> uint64_t \<Rightarrow> rpc_stats" where
  "rpc_type_update st rpc_type_index DELTA_TIMER =
     (if rpc_type_index \<ge> 0 then
        st\<lparr>rpc_type_cnt := (rpc_type_cnt st)
              [nat rpc_type_index := rpc_type_cnt st ! nat rpc_type_index + 1],
           rpc_type_time := (rpc_type_time st)
              [nat rpc_type_index := rpc_type_time st ! nat rpc_type_index + DELTA_TIMER]\<rparr>
      else st)"

definition rpc_user_update :: "rpc_stats \<Rightarrow> int \<Rightarrow> uint64_t \<Rightarrow> rpc_stats" where
  "rpc_user_update st rpc_user_index DELTA_TIMER =
     (if rpc_user_index \<ge> 0 then
        st\<lparr>rpc_user_cnt := (rpc_user_cnt st)
              [nat rpc_user_index := rpc_user_cnt st ! nat rpc_user_index + 1],
           rpc_user_time := (rpc_user_time st)
              [nat rpc_user_index := rpc_user_time st ! nat rpc_user_index + DELTA_TIMER]\<rparr>
      else st)"

definition slurmctld_req ::
  "ctld_env \<Rightarrow> slurm_msg \<Rightarrow> stats_info_request_msg \<Rightarrow> packed list \<Rightarrow> uint64_t \<Rightarrow> rpc_stats
     \<Rightarrow> rpc_stats" where
  "slurmctld_req env msg data all_stat DELTA_TIMER st =
     (let rpc_uid = auth_uid msg in
      if \<not> auth_ok msg then st
      else
        let (st, rpc_type_index, rpc_user_index) = rpc_slot_lookup st (msg_type msg) rpc_uid;
            st = rpc_switch_stats env msg data all_stat st;
            st = rpc_type_update st rpc_type_index DELTA_TIMER;
            st = rpc_user_update st rpc_user_index DELTA_TIMER
        in st)"

text \<open>
  The tables as the daemon keeps them: not allocated, or allocated with 100 and 200
  slots, and slot 0 of the user table with id 0.
\<close>

definition stats_wf :: "rpc_stats \<Rightarrow> bool" where
  "stats_wf st =
     ((rpc_type_size st = 0 \<or> rpc_type_size st = 100)
      \<and> length (rpc_type_id st) = rpc_type_size st
      \<and> length (rpc_type_cnt st) = rpc_type_size st
      \<and> length (rpc_type_time st) = rpc_type_size st
      \<and> (rpc_user_size st = 0 \<or> rpc_user_size st = 200)
      \<and> length (rpc_user_id st) = rpc_user_size st
      \<and> length (rpc_user_cnt st) = rpc_user_size st
      \<and> length (rpc_user_time st) = rpc_user_size st
      \<and> take 1 (rpc_user_id st) = replicate (min 1 (rpc_user_size st)) 0)"

text \<open>
  The slot of an id, in the words of the specification: the first slot that is free or
  already holds the id; in the user table, slot 0 is never free and holds uid 0.
\<close>

definition first_slot :: "'a::len word list \<Rightarrow> 'a word \<Rightarrow> nat option" where
  "first_slot ids x =
     (let i = length (takeWhile (\<lambda>y. y \<noteq> 0 \<and> y \<noteq> x) ids)
      in if i < length ids then Some i else None)"

definition user_slot :: "uint32_t list \<Rightarrow> uint32_t \<Rightarrow> nat option" where
  "user_slot ids uid =
     (if ids = [] then None
      else if uid = 0 then Some 0
      else map_option Suc (first_slot (tl ids) uid))"

definition bump :: "'a::len word list \<Rightarrow> nat option \<Rightarrow> 'a word \<Rightarrow> 'a word list" where
  "bump xs slot d = (case slot of None \<Rightarrow> xs | Some i \<Rightarrow> xs[i := xs ! i + d])"

definition store :: "'a::len word list \<Rightarrow> nat option \<Rightarrow> 'a word \<Rightarrow> 'a word list" where
  "store xs slot x = (case slot of None \<Rightarrow> xs | Some i \<Rightarrow> xs[i := x])"


section \<open>The requests and the records the handlers read (proc\_req.c)\<close>

text \<open>
  The fields that the handlers read, of the job record and of the request bodies.  A
  C pointer that may be \<^verbatim>\<open>NULL\<close> is an option.  Field names are prefixed where two
  structures have a field of the same name.
\<close>

record job_details =
  prolog_running :: uint16_t
  requeue :: uint16_t

record job_record =
  job_id :: uint32_t
  user_id :: uint32_t
  job_state :: uint16_t
  details :: "job_details option"
  batch_host :: "string option"
  front_end_ptr :: "string option"


record complete_batch_script_msg_t =
  comp_job_id :: uint32_t
  job_rc :: uint32_t
  slurm_rc :: slurm_errno
  node_name :: "string option"

record epilog_complete_msg_t =
  epilog_job_id :: uint32_t
  epilog_node_name :: string
  return_code :: uint32_t

record step_complete_msg_t =
  req_job_id :: uint32_t
  job_step_id :: uint32_t

definition SLURM_BATCH_SCRIPT :: uint32_t where "SLURM_BATCH_SCRIPT = 0xfffffffe"

text \<open>
  What \<^verbatim>\<open>slurm_get_peer_addr\<close> reports: success, or failure with the value it
  leaves in \<^verbatim>\<open>errno\<close> (\<open>SLURM_SUCCESS\<close> for 0).
\<close>

datatype peer_result = Peer_ok | Peer_fail slurm_errno

text \<open>
  The answers, during one request, of the functions and variables that are defined
  outside \<^verbatim>\<open>proc_req.c\<close>; each is used at most once by a handler.  A function that
  also writes through a pointer argument answers with a tuple: \<^verbatim>\<open>job_allocate\<close>
  with its return code, the job record and the error message it leaves;
  \<^verbatim>\<open>step_partial_comp\<close> with its return code, \<^verbatim>\<open>rem\<close> and \<^verbatim>\<open>step_rc\<close>; the
  node validation with its return code and \<^verbatim>\<open>newly_up\<close>.  \<open>send_failed\<close> says
  that \<^verbatim>\<open>slurm_send_node_msg\<close> returned a negative value, \<open>bg_block_id\<close> that the
  select plugin gave a block id, \<open>shutdown_time\<close> and \<open>thread_id_sig\<close> that the fields
  of \<^verbatim>\<open>slurmctld_config\<close> are not zero, and \<open>errno_num\<close> is the number of a return
  code.
\<close>

record rpc_ext =
  validate_job_create_req :: "slurm_errno \<times> string option"
  allocated_session_in_use :: bool
  slurm_get_peer_addr :: peer_result
  job_allocate :: "slurm_errno \<times> job_record option \<times> string option"
  send_failed :: bool
  find_job_record :: "job_record option"
  launch_batch_step :: "slurm_errno \<times> uint32_t"
  association_based_accounting :: bool
  drain_nodes :: slurm_errno
  update_front_end :: slurm_errno
  bg_block_id :: bool
  select_g_update_block :: slurm_errno
  job_complete :: slurm_errno
  job_step_complete :: slurm_errno
  step_partial_comp :: "slurm_errno \<times> int \<times> uint32_t"
  replace_batch_job :: bool
  job_epilog_complete :: bool
  defer_sched :: bool
  validate_node_specs :: "slurm_errno \<times> bool"
  validate_nodes_via_front_end :: "slurm_errno \<times> bool"
  in_progress :: bool
  shutdown_time :: bool
  thread_id_sig :: bool
  read_slurm_conf :: slurm_errno
  update_node :: slurm_errno
  update_part :: slurm_errno
  delete_partition :: slurm_errno
  create_resv :: slurm_errno
  update_resv :: slurm_errno
  delete_resv :: slurm_errno
  errno_num :: "slurm_errno \<Rightarrow> int"

section \<open>The handlers (proc\_req.c)\<close>

definition str_arg :: "string option \<Rightarrow> arg" where
  "str_arg p = (case p of None \<Rightarrow> Null | Some s \<Rightarrow> Str s)"

text \<open>The macro \<^verbatim>\<open>MAX(a, b)\<close> on return codes, which compares their numbers.\<close>

definition MAX_rc :: "(slurm_errno \<Rightarrow> int) \<Rightarrow> slurm_errno \<Rightarrow> slurm_errno \<Rightarrow> slurm_errno" where
  "MAX_rc num a b = (if num a > num b then a else b)"








text \<open>
  \<^verbatim>\<open>_slurm_rpc_complete_batch_script\<close>, in the parts of its body:
  \<open>batch_accounting\<close> sends the batch step to accounting; \<open>batch_rc_actions\<close> is the
  chain of tests on \<^verbatim>\<open>comp_msg->slurm_rc\<close> under
  \<^verbatim>\<open>/* First set node DOWN if fatal error */\<close> and gives its trace,
  \<^verbatim>\<open>error_code\<close>, \<^verbatim>\<open>job_requeue\<close>, \<^verbatim>\<open>dump_job\<close>, \<^verbatim>\<open>dump_node\<close> and whether a
  block id was stored; \<open>batch_mark_complete\<close> is the rest, from
  \<^verbatim>\<open>/* Mark job allocation complete */\<close> on.
\<close>

definition batch_wrong_node :: "job_record option \<Rightarrow> complete_batch_script_msg_t \<Rightarrow> bool" where
  "batch_wrong_node job_ptr comp_msg =
     (case job_ptr of
        None \<Rightarrow> False
      | Some job \<Rightarrow>
          (case batch_host job of
             None \<Rightarrow> False
           | Some host \<Rightarrow>
               (case node_name comp_msg of None \<Rightarrow> False | Some name \<Rightarrow> host \<noteq> name)))"

definition batch_requeue_permitted :: "job_record option \<Rightarrow> bool" where
  "batch_requeue_permitted job_ptr =
     (case job_ptr of
        None \<Rightarrow> False
      | Some job \<Rightarrow> (case details job of None \<Rightarrow> False | Some d \<Rightarrow> requeue d \<noteq> 0))"

definition batch_rc_actions ::
  "build_cfg \<Rightarrow> ctld_env \<Rightarrow> rpc_ext \<Rightarrow> job_record option \<Rightarrow> complete_batch_script_msg_t
     \<Rightarrow> action list \<times> slurm_errno \<times> bool \<times> bool \<times> bool \<times> bool" where
  "batch_rc_actions cfg env ext job_ptr comp_msg =
     (if (slurm_rc comp_msg = ESLURM_ALREADY_DONE) \<or>
         (slurm_rc comp_msg = ESLURMD_CREDENTIAL_REVOKED)
      then ([], SLURM_SUCCESS, False, False, False, False)
      else if HAVE_ALPS_CRAY cfg \<and> slurm_rc comp_msg = ESLURM_RESERVATION_NOT_USABLE
      then ([], SLURM_SUCCESS, True, True, False, False)
      else if (slurm_rc comp_msg = SLURM_COMMUNICATIONS_SEND_ERROR) \<or>
              (slurm_rc comp_msg = ESLURM_USER_ID_MISSING) \<or>
              (slurm_rc comp_msg = ESLURMD_UID_NOT_FOUND) \<or>
              (slurm_rc comp_msg = ESLURMD_GID_NOT_FOUND) \<or>
              (slurm_rc comp_msg = ESLURMD_INVALID_ACCT_FREQ)
      then ([], SLURM_SUCCESS, False, False, False, False)
      else if slurm_rc comp_msg \<noteq> SLURM_SUCCESS then
        (let (tr, error_code, block) =
               (if HAVE_BG cfg then ([], SLURM_SUCCESS, job_ptr \<noteq> None \<and> bg_block_id ext)
                else if HAVE_FRONT_END cfg then
                  (case job_ptr of
                     None \<Rightarrow> ([], SLURM_SUCCESS, False)
                   | Some job \<Rightarrow>
                       (case front_end_ptr job of
                          None \<Rightarrow> ([], SLURM_SUCCESS, False)
                        | Some name \<Rightarrow>
                            ([Call ''update_front_end''
                                [Str name, U16 NODE_STATE_DRAIN,
                                 Str ''batch job complete failure'']],
                             update_front_end ext, False)))
                else
                  ([Call ''drain_nodes''
                      [str_arg (node_name comp_msg), Str ''batch job complete failure'',
                       U32 (getuid env)]],
                   drain_nodes ext, False));
             job_requeue = ((job_rc comp_msg \<noteq> 0) \<and> batch_requeue_permitted job_ptr)
         in (Call ''slurmctld_diag_stats.jobs_failed++'' [] # tr,
             error_code, job_requeue, True, True, block))
      else ([], SLURM_SUCCESS, False, False, False, False))"

definition batch_mark_complete ::
  "build_cfg \<Rightarrow> rpc_ext \<Rightarrow> slurm_msg \<Rightarrow> complete_batch_script_msg_t
     \<Rightarrow> slurm_errno \<Rightarrow> bool \<Rightarrow> bool \<Rightarrow> bool \<Rightarrow> bool \<Rightarrow> action list" where
  "batch_mark_complete cfg ext msg comp_msg error_code job_requeue dump_job dump_node block =
     (let uid = auth_uid msg;
          epilog =
            (if msg_type msg = REQUEST_COMPLETE_BATCH_JOB
             then [Call ''job_epilog_complete''
                     [U32 (comp_job_id comp_msg), str_arg (node_name comp_msg), U32 0]]
             else []);
          complete =
            [Call ''job_complete''
               [U32 (comp_job_id comp_msg), U32 uid, Flag job_requeue, Flag False,
                U32 (job_rc comp_msg)]];
          error_code = MAX_rc (errno_num ext) error_code (job_complete ext);
          (bg, error_code) =
            (if HAVE_BG cfg \<and> block
             then ([Call ''select_g_update_block'' []],
                   MAX_rc (errno_num ext) error_code (select_g_update_block ext))
             else ([], error_code));
          (reply, dump_job, run_sched) =
            (if error_code \<noteq> SLURM_SUCCESS
             then ([Send (Rc_msg error_code)], dump_job, False)
             else ([Call ''slurmctld_diag_stats.jobs_completed++'' [],
                    Call ''replace_batch_job'' []],
                   True, replace_batch_job ext))
      in epilog @ complete @ bg @ reply
         @ (if run_sched then [Call ''schedule'' [I32 0]] else [])
         @ (if dump_job then [Call ''schedule_job_save'' []] else [])
         @ (if dump_node then [Call ''schedule_node_save'' []] else []))"

definition batch_accounting :: "rpc_ext \<Rightarrow> job_record option \<Rightarrow> action list" where
  "batch_accounting ext job_ptr =
     (if association_based_accounting ext
         \<and> (case job_ptr of None \<Rightarrow> False | Some job \<Rightarrow> job_state job \<noteq> JOB_PENDING)
      then [Call ''jobacct_storage_g_step_start'' [],
            Call ''jobacct_storage_g_step_complete'' []]
      else [])"

definition slurm_rpc_complete_batch_script ::
  "build_cfg \<Rightarrow> ctld_env \<Rightarrow> rpc_ext \<Rightarrow> slurm_msg \<Rightarrow> complete_batch_script_msg_t \<Rightarrow> action list" where
  "slurm_rpc_complete_batch_script cfg env ext msg comp_msg =
     (let uid = auth_uid msg;
          job_ptr = find_job_record ext
      in if \<not> validate_slurm_user env uid then []
         else if batch_wrong_node job_ptr comp_msg then [Send (Rc_msg SLURM_SUCCESS)]
         else
           (let (tr, error_code, job_requeue, dump_job, dump_node, block) =
                   batch_rc_actions cfg env ext job_ptr comp_msg
            in batch_accounting ext job_ptr @ tr
               @ batch_mark_complete cfg ext msg comp_msg
                   error_code job_requeue dump_job dump_node block))"

text \<open>\<^verbatim>\<open>_slurm_rpc_epilog_complete\<close>; it has no response.\<close>

definition slurm_rpc_epilog_complete ::
  "ctld_env \<Rightarrow> rpc_ext \<Rightarrow> slurm_msg \<Rightarrow> epilog_complete_msg_t \<Rightarrow> action list" where
  "slurm_rpc_epilog_complete env ext msg epilog_msg =
     (let uid = auth_uid msg
      in if \<not> validate_slurm_user env uid then []
         else
           (let run_scheduler = job_epilog_complete ext
            in Call ''job_epilog_complete''
                 [U32 (epilog_job_id epilog_msg), Str (epilog_node_name epilog_msg),
                  U32 (return_code epilog_msg)]
               # (if run_scheduler then
                    (if \<not> defer_sched ext then [Call ''schedule'' [I32 0]] else [])
                    @ [Call ''schedule_node_save'' [], Call ''schedule_job_save'' []]
                  else [])))"

text \<open>\<^verbatim>\<open>_slurm_rpc_node_registration\<close>.\<close>

definition slurm_rpc_node_registration ::
  "build_cfg \<Rightarrow> ctld_env \<Rightarrow> rpc_ext \<Rightarrow> slurm_msg \<Rightarrow> action list" where
  "slurm_rpc_node_registration cfg env ext msg =
     (let uid = auth_uid msg;
          error_code = SLURM_SUCCESS;
          error_code = (if \<not> validate_slurm_user env uid then ESLURM_USER_ID_MISSING
                        else error_code);
          (tr, error_code) =
             (if error_code = SLURM_SUCCESS then
                (let (calls, (error_code, newly_up)) =
                       (if HAVE_FRONT_END cfg
                        then ([Call ''validate_nodes_via_front_end'' []],
                              validate_nodes_via_front_end ext)
                        else ([Call ''validate_jobs_on_node'' [], Call ''validate_node_specs'' []],
                              validate_node_specs ext))
                 in (calls @ (if newly_up then [Call ''queue_job_scheduler'' []] else []),
                     error_code))
              else ([], error_code))
      in tr @ (if error_code \<noteq> SLURM_SUCCESS then [Send (Rc_msg error_code)]
               else [Send (Rc_msg SLURM_SUCCESS)]))"

text \<open>\<^verbatim>\<open>_slurm_rpc_ping\<close>: \<^verbatim>\<open>/* We could authenticate here, if desired */\<close>.\<close>

definition slurm_rpc_ping :: "ctld_env \<Rightarrow> slurm_msg \<Rightarrow> action list" where
  "slurm_rpc_ping env msg = [Send (Rc_msg SLURM_SUCCESS)]"

text \<open>\<^verbatim>\<open>_slurm_rpc_step_complete\<close>.\<close>

definition slurm_rpc_step_complete ::
  "ctld_env \<Rightarrow> rpc_ext \<Rightarrow> slurm_msg \<Rightarrow> step_complete_msg_t \<Rightarrow> action list" where
  "slurm_rpc_step_complete env ext msg req =
     (let uid = auth_uid msg;
          (rc, rem, step_rc) = step_partial_comp ext;
          partial = [Call ''step_partial_comp'' [U32 uid]]
      in if (rc \<noteq> SLURM_SUCCESS) \<or> (rem \<noteq> 0) then
           partial @ [Send (Rc_msg rc)]
           @ (if rc = SLURM_SUCCESS then [Call ''schedule_job_save'' []] else [])
         else if job_step_id req = SLURM_BATCH_SCRIPT then
           (let error_code = job_complete ext
            in partial
               @ [Call ''job_complete''
                    [U32 (req_job_id req), U32 uid, Flag False, Flag False, U32 step_rc]]
               @ (if error_code \<noteq> SLURM_SUCCESS then [Send (Rc_msg error_code)]
                  else [Send (Rc_msg SLURM_SUCCESS), Call ''schedule_job_save'' []]))
         else
           (let error_code = job_step_complete ext
            in partial
               @ [Call ''job_step_complete''
                    [U32 (req_job_id req), U32 (job_step_id req), U32 uid, Flag False,
                     U32 step_rc]]
               @ (if error_code \<noteq> SLURM_SUCCESS then [Send (Rc_msg error_code)]
                  else [Send (Rc_msg SLURM_SUCCESS), Call ''schedule_job_save'' []])))"

text \<open>\<^verbatim>\<open>_slurm_rpc_reconfigure_controller\<close>.\<close>

definition slurm_rpc_reconfigure_controller ::
  "ctld_env \<Rightarrow> rpc_ext \<Rightarrow> slurm_msg \<Rightarrow> action list" where
  "slurm_rpc_reconfigure_controller env ext msg =
     (let uid = auth_uid msg;
          error_code = SLURM_SUCCESS;
          error_code = (if \<not> validate_super_user env uid then ESLURM_USER_ID_MISSING
                        else error_code);
          error_code = (if in_progress ext \<or> shutdown_time ext then EINPROGRESS else error_code);
          (tr, error_code) =
             (if error_code = SLURM_SUCCESS then
                (let error_code = read_slurm_conf ext
                 in ([Call ''read_slurm_conf'' [I32 1, Flag True]]
                     @ (if error_code = SLURM_SUCCESS
                        then [Call ''_update_cred_key'' [], Call ''set_slurmctld_state_loc'' [],
                              Call ''msg_to_slurmd'' [U16 REQUEST_RECONFIGURE]]
                        else [])
                     @ [Call ''slurm_sched_g_partition_change'' [],
                        Call ''assoc_mgr_set_missing_uids'' [],
                        Call ''start_power_mgr'' [], Call ''trigger_reconfig'' []],
                     error_code))
              else ([], error_code))
      in tr @ (if error_code \<noteq> SLURM_SUCCESS then [Send (Rc_msg error_code)]
               else [Send (Rc_msg SLURM_SUCCESS), Call ''acct_storage_g_reconfig'' [],
                     Call ''priority_g_reconfig'' [Flag False], Call ''save_all_state'' [],
                     Call ''queue_job_scheduler'' []]))"

text \<open>
  \<^verbatim>\<open>_slurm_rpc_shutdown_controller\<close>, for \<^verbatim>\<open>REQUEST_SHUTDOWN\<close> and
  \<^verbatim>\<open>REQUEST_CONTROL\<close>; \<open>shutdown_options\<close> is the field \<^verbatim>\<open>options\<close> of the body of
  a shutdown request.  The bounded wait for the other threads leaves no entry.
\<close>

definition slurm_rpc_shutdown_controller ::
  "ctld_env \<Rightarrow> rpc_ext \<Rightarrow> slurm_msg \<Rightarrow> uint16_t \<Rightarrow> action list" where
  "slurm_rpc_shutdown_controller env ext msg shutdown_options =
     (let uid = auth_uid msg;
          error_code = SLURM_SUCCESS;
          options = (0::uint16_t);
          error_code = (if \<not> validate_super_user env uid then ESLURM_USER_ID_MISSING
                        else error_code);
          (tr1, options) =
             (if error_code \<noteq> SLURM_SUCCESS then ([], options)
              else if msg_type msg = REQUEST_CONTROL
              then ([Call ''slurmctld_config.resume_backup=true'' []], options)
              else ([], shutdown_options));
          tr2 =
             (if error_code \<noteq> SLURM_SUCCESS then []
              else if options = 1 then []
              else if shutdown_time ext then []
              else
                (if (msg_type msg = REQUEST_SHUTDOWN) \<and> (options = 0)
                 then [Call ''msg_to_slurmd'' [U16 REQUEST_SHUTDOWN]] else [])
                @ (if thread_id_sig ext then [Call ''pthread_kill'' [Str ''SIGTERM'']]
                   else [Call ''slurmctld_config.shutdown_time=time'' [],
                         Call ''slurmctld_shutdown'' []]))
      in tr1 @ tr2 @ [Send (Rc_msg error_code)]
         @ (if (error_code = SLURM_SUCCESS) \<and> (options = 1) \<and> thread_id_sig ext
            then [Call ''pthread_kill'' [Str ''SIGABRT'']] else []))"


text \<open>
  The update handlers; the string is the name field of the request body
  (\<^verbatim>\<open>node_names\<close>, \<^verbatim>\<open>name\<close>).
\<close>

definition slurm_rpc_update_node :: "ctld_env \<Rightarrow> rpc_ext \<Rightarrow> slurm_msg \<Rightarrow> string \<Rightarrow> action list" where
  "slurm_rpc_update_node env ext msg node_names =
     (let uid = auth_uid msg;
          error_code = SLURM_SUCCESS;
          error_code = (if \<not> validate_super_user env uid then ESLURM_USER_ID_MISSING
                        else error_code);
          (tr, error_code) =
             (if error_code = SLURM_SUCCESS
              then ([Call ''update_node'' [Str node_names]], update_node ext)
              else ([], error_code))
      in tr @ (if error_code \<noteq> SLURM_SUCCESS then [Send (Rc_msg error_code)]
               else [Send (Rc_msg SLURM_SUCCESS)])
         @ [Call ''schedule_node_save'' [], Call ''queue_job_scheduler'' [],
            Call ''trigger_reconfig'' []])"

definition slurm_rpc_update_partition ::
  "ctld_env \<Rightarrow> rpc_ext \<Rightarrow> slurm_msg \<Rightarrow> string \<Rightarrow> action list" where
  "slurm_rpc_update_partition env ext msg name =
     (let uid = auth_uid msg;
          error_code = SLURM_SUCCESS;
          error_code = (if \<not> validate_super_user env uid then ESLURM_USER_ID_MISSING
                        else error_code);
          (tr, error_code) =
             (if error_code = SLURM_SUCCESS then
                (if msg_type msg = REQUEST_CREATE_PARTITION
                 then ([Call ''update_part'' [Str name, Flag True]], update_part ext)
                 else ([Call ''update_part'' [Str name, Flag False]], update_part ext))
              else ([], error_code))
      in tr @ (if error_code \<noteq> SLURM_SUCCESS then [Send (Rc_msg error_code)]
               else [Send (Rc_msg SLURM_SUCCESS), Call ''schedule_part_save'' [],
                     Call ''queue_job_scheduler'' []]))"

definition slurm_rpc_delete_partition ::
  "ctld_env \<Rightarrow> rpc_ext \<Rightarrow> slurm_msg \<Rightarrow> string \<Rightarrow> action list" where
  "slurm_rpc_delete_partition env ext msg name =
     (let uid = auth_uid msg;
          error_code = SLURM_SUCCESS;
          error_code = (if \<not> validate_super_user env uid then ESLURM_USER_ID_MISSING
                        else error_code);
          (tr, error_code) =
             (if error_code = SLURM_SUCCESS
              then ([Call ''delete_partition'' [Str name]], delete_partition ext)
              else ([], error_code))
      in tr @ (if error_code \<noteq> SLURM_SUCCESS then [Send (Rc_msg error_code)]
               else [Send (Rc_msg SLURM_SUCCESS), Call ''save_all_state'' [],
                     Call ''queue_job_scheduler'' []]))"

definition slurm_rpc_resv_create ::
  "ctld_env \<Rightarrow> rpc_ext \<Rightarrow> slurm_msg \<Rightarrow> string \<Rightarrow> action list" where
  "slurm_rpc_resv_create env ext msg name =
     (let uid = auth_uid msg;
          error_code = SLURM_SUCCESS;
          error_code = (if \<not> validate_operator env uid then ESLURM_USER_ID_MISSING
                        else error_code);
          (tr, error_code) =
             (if error_code = SLURM_SUCCESS
              then ([Call ''create_resv'' [Str name]], create_resv ext)
              else ([], error_code))
      in tr @ (if error_code \<noteq> SLURM_SUCCESS then [Send (Rc_msg error_code)]
               else [Send (RESPONSE_CREATE_RESERVATION name),
                     Call ''queue_job_scheduler'' []]))"

definition slurm_rpc_resv_update ::
  "ctld_env \<Rightarrow> rpc_ext \<Rightarrow> slurm_msg \<Rightarrow> string \<Rightarrow> action list" where
  "slurm_rpc_resv_update env ext msg name =
     (let uid = auth_uid msg;
          error_code = SLURM_SUCCESS;
          error_code = (if \<not> validate_operator env uid then ESLURM_USER_ID_MISSING
                        else error_code);
          (tr, error_code) =
             (if error_code = SLURM_SUCCESS
              then ([Call ''update_resv'' [Str name]], update_resv ext)
              else ([], error_code))
      in tr @ (if error_code \<noteq> SLURM_SUCCESS then [Send (Rc_msg error_code)]
               else [Send (Rc_msg SLURM_SUCCESS), Call ''queue_job_scheduler'' []]))"

definition slurm_rpc_resv_delete ::
  "ctld_env \<Rightarrow> rpc_ext \<Rightarrow> slurm_msg \<Rightarrow> string \<Rightarrow> action list" where
  "slurm_rpc_resv_delete env ext msg name =
     (let uid = auth_uid msg;
          error_code = SLURM_SUCCESS;
          error_code = (if \<not> validate_operator env uid then ESLURM_USER_ID_MISSING
                        else error_code);
          (tr, error_code) =
             (if error_code = SLURM_SUCCESS
              then ([Call ''delete_resv'' [Str name]], delete_resv ext)
              else ([], error_code))
      in tr @ (if error_code \<noteq> SLURM_SUCCESS then [Send (Rc_msg error_code)]
               else [Send (Rc_msg SLURM_SUCCESS), Call ''queue_job_scheduler'' []]))"

text \<open>The calls of a given C function in a trace, by their arguments.\<close>

definition calls :: "string \<Rightarrow> action list \<Rightarrow> arg list list" where
  "calls f tr = concat (map (\<lambda>a. case a of Call g args \<Rightarrow> (if g = f then [args] else []) | Send r \<Rightarrow> []) tr)"

definition called :: "action list \<Rightarrow> string list" where
  "called tr = concat (map (\<lambda>a. case a of Call g args \<Rightarrow> [g] | Send r \<Rightarrow> []) tr)"

text \<open>
  A trace sends exactly one response, unless it contains a call of the given function,
  and then none.
\<close>

definition replies_once_unless :: "string \<Rightarrow> action list \<Rightarrow> bool" where
  "replies_once_unless f tr = (length (responses tr) = (if calls f tr = [] then 1 else 0))"


section \<open>Example configurations\<close>

text \<open>
  A daemon running as uid 990, with an accounting database that knows uid 2000 as
  operator and uid 3000 as super user; a request of a given caller and type; and the
  telemetry after uids 1 to 199 have each sent one ping that took one time unit.
\<close>

definition example_env :: ctld_env where
  "example_env =
     \<lparr>getuid = 990,
      assoc_mgr_get_admin_level =
        (\<lambda>uid. if uid = 2000 then SLURMDB_ADMIN_OPERATOR
               else if uid = 3000 then SLURMDB_ADMIN_SUPER_USER
               else SLURMDB_ADMIN_NOTSET)\<rparr>"

definition example_msg :: "uid_t \<Rightarrow> uint16_t \<Rightarrow> slurm_msg" where
  "example_msg uid t =
     \<lparr>auth_ok = True, auth_uid = uid, msg_type = t,
      protocol_version = SLURM_14_11_PROTOCOL_VERSION\<rparr>"

definition rpc_stats_user_full :: rpc_stats where
  "rpc_stats_user_full =
     \<lparr>rpc_type_size = 100,
      rpc_type_id = REQUEST_PING # replicate 99 0,
      rpc_type_cnt = 199 # replicate 99 0,
      rpc_type_time = 199 # replicate 99 0,
      rpc_user_size = 200,
      rpc_user_id = 0 # map of_nat [1..<200],
      rpc_user_cnt = 0 # replicate 199 1,
      rpc_user_time = 0 # replicate 199 1\<rparr>"

text \<open>
  The default build (no front end, no BlueGene, no Cray ALPS); a pending job 42 of uid
  1000 that may be requeued; and a request during which every outside function succeeds
  and \<^verbatim>\<open>job_allocate\<close> hands back job 42.
\<close>

definition example_cfg :: build_cfg where
  "example_cfg =
     \<lparr>HAVE_FRONT_END = False, HAVE_BG = False, HAVE_BGQ = False, HAVE_ALPS_CRAY = False\<rparr>"

definition example_job :: job_record where
  "example_job =
     \<lparr>job_id = 42, user_id = 1000, job_state = JOB_PENDING,
      details = Some \<lparr>prolog_running = 0, requeue = 1\<rparr>,
      batch_host = Some ''n1'', front_end_ptr = None\<rparr>"

definition example_ext :: rpc_ext where
  "example_ext =
     \<lparr>validate_job_create_req = (SLURM_SUCCESS, None),
      allocated_session_in_use = False,
      slurm_get_peer_addr = Peer_ok,
      job_allocate = (SLURM_SUCCESS, Some example_job, None),
      send_failed = False,
      find_job_record = None,
      launch_batch_step = (SLURM_SUCCESS, 0),
      association_based_accounting = False,
      drain_nodes = SLURM_SUCCESS,
      update_front_end = SLURM_SUCCESS,
      bg_block_id = False,
      select_g_update_block = SLURM_SUCCESS,
      job_complete = SLURM_SUCCESS,
      job_step_complete = SLURM_SUCCESS,
      step_partial_comp = (SLURM_SUCCESS, 0, 0),
      replace_batch_job = False,
      job_epilog_complete = False,
      defer_sched = False,
      validate_node_specs = (SLURM_SUCCESS, False),
      validate_nodes_via_front_end = (SLURM_SUCCESS, False),
      in_progress = False,
      shutdown_time = False,
      thread_id_sig = True,
      read_slurm_conf = SLURM_SUCCESS,
      update_node = SLURM_SUCCESS,
      update_part = SLURM_SUCCESS,
      delete_partition = SLURM_SUCCESS,
      create_resv = SLURM_SUCCESS,
      update_resv = SLURM_SUCCESS,
      delete_resv = SLURM_SUCCESS,
      errno_num = (\<lambda>e. if e = SLURM_SUCCESS then 0 else if e = SLURM_ERROR then - 1 else 1)\<rparr>"


definition example_comp :: "slurm_errno \<Rightarrow> complete_batch_script_msg_t" where
  "example_comp rc =
     \<lparr>comp_job_id = 42, job_rc = 1, slurm_rc = rc, node_name = Some ''n1''\<rparr>"



section \<open>Derived state predicates\<close>

text \<open>
  C6.  For every job state word: Started iff the base state is above Pending, Finished
  iff the base state is above Suspended, Completed iff Finished and the Completing flag
  is clear.  For every node state word: Draining iff the Drain flag is set and the base
  state is Allocated, Error or Mixed; Drained iff the Drain flag is set and the node is
  not Draining.
\<close>

theorem derived_state_predicates:
  "(IS_JOB_STARTED js \<longleftrightarrow> job_base_state js > JOB_PENDING)
   \<and> (IS_JOB_FINISHED js \<longleftrightarrow> job_base_state js > JOB_SUSPENDED)
   \<and> (IS_JOB_COMPLETED js \<longleftrightarrow> IS_JOB_FINISHED js \<and> \<not> job_flag_set JOB_COMPLETING js)
   \<and> (IS_NODE_DRAINING ns \<longleftrightarrow>
        node_flag_set NODE_STATE_DRAIN ns
        \<and> node_base_state ns \<in> {NODE_STATE_ALLOCATED, NODE_STATE_ERROR, NODE_STATE_MIXED})
   \<and> (IS_NODE_DRAINED ns \<longleftrightarrow> node_flag_set NODE_STATE_DRAIN ns \<and> \<not> IS_NODE_DRAINING ns)"
  unfolding IS_JOB_STARTED_def IS_JOB_FINISHED_def IS_JOB_COMPLETED_def IS_NODE_DRAINING_def
    IS_NODE_DRAINED_def IS_NODE_DRAIN_def IS_NODE_ALLOCATED_def IS_NODE_ERROR_def
    IS_NODE_MIXED_def job_base_state_def job_flag_set_def node_base_state_def
    node_flag_set_def c_true_def
  by auto

section \<open>The slot scans and the loops of the telemetry\<close>

lemma type_slot_scan_step:
  "i < n \<Longrightarrow>
   type_slot_scan ids n t i =
     (if ids ! i = 0 then (ids[i := t], int i)
      else if ids ! i \<noteq> t then type_slot_scan ids n t (i + 1)
      else (ids, int i))"
  by (subst type_slot_scan.simps) simp

lemma type_slot_scan_stop: "\<not> i < n \<Longrightarrow> type_slot_scan ids n t i = (ids, -1)"
  by (subst type_slot_scan.simps) simp

lemma user_slot_scan_step:
  "i < n \<Longrightarrow>
   user_slot_scan ids n u i =
     (if (ids ! i = 0) \<and> (i \<noteq> 0) then (ids[i := u], int i)
      else if ids ! i \<noteq> u then user_slot_scan ids n u (i + 1)
      else (ids, int i))"
  by (subst user_slot_scan.simps) simp

lemma user_slot_scan_stop: "\<not> i < n \<Longrightarrow> user_slot_scan ids n u i = (ids, -1)"
  by (subst user_slot_scan.simps) simp

lemma clear_type_loop_step:
  "i < rpc_type_size st \<Longrightarrow>
   clear_type_loop i st =
     clear_type_loop (i + 1)
       (st\<lparr>rpc_type_cnt := (rpc_type_cnt st)[i := 0],
           rpc_type_id := (rpc_type_id st)[i := 0],
           rpc_type_time := (rpc_type_time st)[i := 0]\<rparr>)"
  by (subst clear_type_loop.simps) simp

lemma clear_type_loop_stop: "\<not> i < rpc_type_size st \<Longrightarrow> clear_type_loop i st = st"
  by (subst clear_type_loop.simps) simp

lemma clear_user_loop_step:
  "i < rpc_user_size st \<Longrightarrow>
   clear_user_loop i st =
     clear_user_loop (i + 1)
       (st\<lparr>rpc_user_cnt := (rpc_user_cnt st)[i := 0],
           rpc_user_id := (rpc_user_id st)[i := 0],
           rpc_user_time := (rpc_user_time st)[i := 0]\<rparr>)"
  by (subst clear_user_loop.simps) simp

lemma clear_user_loop_stop: "\<not> i < rpc_user_size st \<Longrightarrow> clear_user_loop i st = st"
  by (subst clear_user_loop.simps) simp

lemma used_scan_step:
  "i < n \<Longrightarrow> used_scan ids n i = (if ids ! i = 0 then i else used_scan ids n (i + 1))"
  by (subst used_scan.simps) simp

lemma used_scan_stop: "\<not> i < n \<Longrightarrow> used_scan ids n i = i"
  by (subst used_scan.simps) simp

lemma first_slot_Nil: "first_slot [] x = None"
  by (simp add: first_slot_def)

lemma first_slot_Cons:
  "first_slot (y # ys) x = (if y = 0 \<or> y = x then Some 0 else map_option Suc (first_slot ys x))"
  by (simp add: first_slot_def Let_def)

lemma first_slot_None_iff:
  "first_slot ids x = None \<longleftrightarrow> (\<forall>y\<in>set ids. y \<noteq> 0 \<and> y \<noteq> x)"
  by (induction ids) (auto simp: first_slot_Nil first_slot_Cons)

lemma first_slot_SomeD:
  "first_slot ids x = Some k \<Longrightarrow>
     k < length ids \<and> (ids ! k = 0 \<or> ids ! k = x) \<and> (\<forall>j<k. ids ! j \<noteq> 0 \<and> ids ! j \<noteq> x)"
proof (induction ids arbitrary: k)
  case Nil
  then show ?case by (simp add: first_slot_Nil)
next
  case (Cons y ys)
  show ?case
  proof (cases "y = 0 \<or> y = x")
    case True
    with Cons.prems show ?thesis by (auto simp: first_slot_Cons)
  next
    case False
    with Cons.prems obtain k' where k: "k = Suc k'" "first_slot ys x = Some k'"
      by (auto simp: first_slot_Cons)
    from Cons.IH[OF k(2)] False k(1) show ?thesis
      by (auto simp: nth_Cons split: nat.splits)
  qed
qed

lemma user_slot_0: "user_slot ids u = Some 0 \<Longrightarrow> u = 0"
  by (auto simp: user_slot_def split: if_splits)

lemma user_slot_root: "ids \<noteq> [] \<Longrightarrow> user_slot ids 0 = Some 0"
  by (simp add: user_slot_def)

text \<open>The scan of the type table from index \<open>i\<close> finds the first slot of the rest.\<close>

lemma type_slot_scan_drop:
  "i \<le> length ids \<Longrightarrow>
   type_slot_scan ids (length ids) t i =
     (case first_slot (drop i ids) t of
        Some k \<Rightarrow> (ids[i + k := t], int (i + k))
      | None \<Rightarrow> (ids, -1))"
proof (induction ids "length ids" t i rule: type_slot_scan.induct)
  case (1 ids t i)
  show ?case
  proof (cases "i < length ids")
    case False
    with 1(2) have "i = length ids" by simp
    then show ?thesis by (simp add: first_slot_Nil type_slot_scan_stop)
  next
    case True
    then have d: "drop i ids = ids ! i # drop (Suc i) ids"
      by (simp add: Cons_nth_drop_Suc)
    show ?thesis
    proof (cases "ids ! i = 0")
      case z: True
      then show ?thesis using True d by (simp add: first_slot_Cons type_slot_scan_step)
    next
      case nz: False
      show ?thesis
      proof (cases "ids ! i = t")
        case True
        then have "ids[i := t] = ids" by (metis list_update_id)
        with True \<open>i < length ids\<close> d nz show ?thesis
          by (simp add: first_slot_Cons type_slot_scan_step)
      next
        case False
        have ih: "type_slot_scan ids (length ids) t (i + 1) =
          (case first_slot (drop (i + 1) ids) t of
             Some k \<Rightarrow> (ids[i + 1 + k := t], int (i + 1 + k))
           | None \<Rightarrow> (ids, -1))"
          using 1(1)[OF True nz False] True by simp
        show ?thesis
          using True nz False d ih
          by (simp add: first_slot_Cons type_slot_scan_step split: option.splits)
      qed
    qed
  qed
qed

lemma user_slot_scan_drop:
  "1 \<le> i \<Longrightarrow> i \<le> length ids \<Longrightarrow>
   user_slot_scan ids (length ids) u i =
     (case first_slot (drop i ids) u of
        Some k \<Rightarrow> (ids[i + k := u], int (i + k))
      | None \<Rightarrow> (ids, -1))"
proof (induction ids "length ids" u i rule: user_slot_scan.induct)
  case (1 ids u i)
  show ?case
  proof (cases "i < length ids")
    case False
    with 1(3) have "i = length ids" by simp
    then show ?thesis by (simp add: first_slot_Nil user_slot_scan_stop)
  next
    case True
    then have d: "drop i ids = ids ! i # drop (Suc i) ids"
      by (simp add: Cons_nth_drop_Suc)
    have i0: "i \<noteq> 0" using 1(2) by simp
    show ?thesis
    proof (cases "ids ! i = 0")
      case z: True
      then show ?thesis using True d i0 by (simp add: first_slot_Cons user_slot_scan_step)
    next
      case nz: False
      show ?thesis
      proof (cases "ids ! i = u")
        case True
        then have "ids[i := u] = ids" by (metis list_update_id)
        with True \<open>i < length ids\<close> d nz show ?thesis
          by (simp add: first_slot_Cons user_slot_scan_step)
      next
        case False
        have c: "\<not> (ids ! i = 0 \<and> i \<noteq> 0)" using nz by simp
        have ih: "user_slot_scan ids (length ids) u (i + 1) =
          (case first_slot (drop (i + 1) ids) u of
             Some k \<Rightarrow> (ids[i + 1 + k := u], int (i + 1 + k))
           | None \<Rightarrow> (ids, -1))"
          using 1(1)[OF True c False] True by simp
        show ?thesis
          using True nz False d ih
          by (simp add: first_slot_Cons user_slot_scan_step split: option.splits)
      qed
    qed
  qed
qed

lemma type_slot_scan_0:
  "type_slot_scan ids (length ids) t 0 =
     (store ids (first_slot ids t) t, case first_slot ids t of Some k \<Rightarrow> int k | None \<Rightarrow> -1)"
  using type_slot_scan_drop[of 0 ids t] by (simp add: store_def split: option.splits)

lemma user_slot_scan_0:
  assumes "ids \<noteq> []" "ids ! 0 = 0"
  shows "user_slot_scan ids (length ids) u 0 =
     (store ids (user_slot ids u) u, case user_slot ids u of Some k \<Rightarrow> int k | None \<Rightarrow> -1)"
proof (cases "u = 0")
  case True
  then have "ids[0 := u] = ids" using assms by (metis list_update_id)
  moreover have "0 < length ids" using assms by simp
  ultimately show ?thesis using assms True
    by (simp add: user_slot_def store_def user_slot_scan_step)
next
  case False
  have l: "1 \<le> length ids" using assms by (cases ids) auto
  have "0 < length ids" using assms(1) by simp
  then have "user_slot_scan ids (length ids) u 0 = user_slot_scan ids (length ids) u 1"
    using assms False by (simp add: user_slot_scan_step)
  also have "\<dots> = (case first_slot (drop 1 ids) u of
        Some k \<Rightarrow> (ids[1 + k := u], int (1 + k))
      | None \<Rightarrow> (ids, -1))"
    using user_slot_scan_drop[of 1 ids u] l by simp
  finally show ?thesis using assms(1) False
    by (simp add: user_slot_def store_def drop_Suc split: option.splits)
qed

lemma length_store [simp]: "length (store xs s x) = length xs"
  by (cases s) (simp_all add: store_def)

lemma length_bump [simp]: "length (bump xs s x) = length xs"
  by (cases s) (simp_all add: bump_def)

lemma take1_store_user:
  assumes "take 1 ids = [0]"
  shows "take 1 (store ids (user_slot ids u) u) = [0]"
proof (cases "user_slot ids u")
  case None
  then show ?thesis using assms by (simp add: store_def)
next
  case (Some k)
  show ?thesis
  proof (cases k)
    case 0
    with Some have "u = 0" using user_slot_0 by blast
    with Some 0 assms show ?thesis by (cases ids) (simp_all add: store_def)
  next
    case (Suc j)
    with Some assms show ?thesis by (cases ids) (simp_all add: store_def)
  qed
qed

lemma stats_wf_alloc:
  "stats_wf st \<Longrightarrow>
   stats_wf (alloc_rpc_user (alloc_rpc_type st))
   \<and> rpc_type_size (alloc_rpc_user (alloc_rpc_type st)) = 100
   \<and> rpc_user_size (alloc_rpc_user (alloc_rpc_type st)) = 200"
  by (auto simp: stats_wf_def alloc_rpc_type_def alloc_rpc_user_def xmalloc_def)

lemma alloc_idem:
  "rpc_type_size st = 100 \<Longrightarrow> rpc_user_size st = 200 \<Longrightarrow> alloc_rpc_user (alloc_rpc_type st) = st"
  by (simp add: alloc_rpc_type_def alloc_rpc_user_def)

text \<open>The first block of the dispatcher under the mutex, in terms of the slots.\<close>

lemma rpc_slot_lookup_eq:
  assumes wf: "stats_wf st"
  shows "rpc_slot_lookup st t u =
     (let a = alloc_rpc_user (alloc_rpc_type st);
          ts = first_slot (rpc_type_id a) t;
          us = user_slot (rpc_user_id a) u
      in (a\<lparr>rpc_type_id := store (rpc_type_id a) ts t, rpc_user_id := store (rpc_user_id a) us u\<rparr>,
          (case ts of Some k \<Rightarrow> int k | None \<Rightarrow> -1),
          (case us of Some k \<Rightarrow> int k | None \<Rightarrow> -1)))"
proof -
  let ?a = "alloc_rpc_user (alloc_rpc_type st)"
  have wfa: "stats_wf ?a" "rpc_type_size ?a = 100" "rpc_user_size ?a = 200"
    using stats_wf_alloc[OF wf] by simp_all
  have lt: "length (rpc_type_id ?a) = rpc_type_size ?a" using wfa by (simp add: stats_wf_def)
  have lu: "length (rpc_user_id ?a) = rpc_user_size ?a" using wfa by (simp add: stats_wf_def)
  have u0: "rpc_user_id ?a \<noteq> []" "rpc_user_id ?a ! 0 = 0"
    using wfa by (cases "rpc_user_id ?a"; auto simp: stats_wf_def)+
  have t1: "rpc_type_id (alloc_rpc_type st) = rpc_type_id ?a"
           "rpc_type_size (alloc_rpc_type st) = rpc_type_size ?a"
    by (simp_all add: alloc_rpc_user_def)
  have ts: "type_slot_scan (rpc_type_id (alloc_rpc_type st)) (rpc_type_size (alloc_rpc_type st)) t 0
     = (store (rpc_type_id ?a) (first_slot (rpc_type_id ?a) t) t,
        case first_slot (rpc_type_id ?a) t of Some k \<Rightarrow> int k | None \<Rightarrow> -1)"
    unfolding t1 using type_slot_scan_0[of "rpc_type_id ?a" t] lt by simp
  have au: "\<And>x. alloc_rpc_user ((alloc_rpc_type st)\<lparr>rpc_type_id := x\<rparr>) = ?a\<lparr>rpc_type_id := x\<rparr>"
    by (simp add: alloc_rpc_user_def)
  have us: "\<And>x. user_slot_scan (rpc_user_id (?a\<lparr>rpc_type_id := x\<rparr>))
                 (rpc_user_size (?a\<lparr>rpc_type_id := x\<rparr>)) u 0
     = (store (rpc_user_id ?a) (user_slot (rpc_user_id ?a) u) u,
        case user_slot (rpc_user_id ?a) u of Some k \<Rightarrow> int k | None \<Rightarrow> -1)"
    using user_slot_scan_0[OF u0, of u] lu by simp
  show ?thesis
    unfolding rpc_slot_lookup_def
    apply (simp only: Let_def ts split_conv au)
    apply (simp only: us split_conv)
    done
qed

lemma rpc_switch_stats_plain:
  "\<not> (msg_type msg = REQUEST_STATS_INFO \<and> command_id data = STAT_COMMAND_RESET) \<Longrightarrow>
   rpc_switch_stats env msg data all_stat s = s"
  by (auto simp: rpc_switch_stats_def slurm_rpc_dump_stats_def Let_def)

lemma rpc_type_update_eq:
  "rpc_type_update s (case ts of Some k \<Rightarrow> int k | None \<Rightarrow> -1) d =
     s\<lparr>rpc_type_cnt := bump (rpc_type_cnt s) ts 1, rpc_type_time := bump (rpc_type_time s) ts d\<rparr>"
  by (cases ts) (simp_all add: rpc_type_update_def bump_def)

lemma rpc_user_update_eq:
  "rpc_user_update s (case us of Some k \<Rightarrow> int k | None \<Rightarrow> -1) d =
     s\<lparr>rpc_user_cnt := bump (rpc_user_cnt s) us 1, rpc_user_time := bump (rpc_user_time s) us d\<rparr>"
  by (cases us) (simp_all add: rpc_user_update_def bump_def)

text \<open>A request other than a statistics request, as one update of the tables.\<close>

lemma slurmctld_req_plain:
  assumes wf: "stats_wf st" and ok: "auth_ok msg"
    and ty: "\<not> (msg_type msg = REQUEST_STATS_INFO \<and> command_id data = STAT_COMMAND_RESET)"
  shows "slurmctld_req env msg data all_stat d st =
     (alloc_rpc_user (alloc_rpc_type st))
       \<lparr>rpc_type_id := store (rpc_type_id (alloc_rpc_user (alloc_rpc_type st)))
            (first_slot (rpc_type_id (alloc_rpc_user (alloc_rpc_type st))) (msg_type msg)) (msg_type msg),
        rpc_user_id := store (rpc_user_id (alloc_rpc_user (alloc_rpc_type st)))
            (user_slot (rpc_user_id (alloc_rpc_user (alloc_rpc_type st))) (auth_uid msg)) (auth_uid msg),
        rpc_type_cnt := bump (rpc_type_cnt (alloc_rpc_user (alloc_rpc_type st)))
            (first_slot (rpc_type_id (alloc_rpc_user (alloc_rpc_type st))) (msg_type msg)) 1,
        rpc_type_time := bump (rpc_type_time (alloc_rpc_user (alloc_rpc_type st)))
            (first_slot (rpc_type_id (alloc_rpc_user (alloc_rpc_type st))) (msg_type msg)) d,
        rpc_user_cnt := bump (rpc_user_cnt (alloc_rpc_user (alloc_rpc_type st)))
            (user_slot (rpc_user_id (alloc_rpc_user (alloc_rpc_type st))) (auth_uid msg)) 1,
        rpc_user_time := bump (rpc_user_time (alloc_rpc_user (alloc_rpc_type st)))
            (user_slot (rpc_user_id (alloc_rpc_user (alloc_rpc_type st))) (auth_uid msg)) d\<rparr>"
  unfolding slurmctld_req_def
  apply (simp only: Let_def ok not_True_eq_False if_False rpc_slot_lookup_eq[OF wf] split_conv
      rpc_switch_stats_plain[OF ty] rpc_type_update_eq rpc_user_update_eq)
  apply simp
  done

lemma stats_wf_slurmctld_req_plain:
  assumes wf: "stats_wf st" and ok: "auth_ok msg"
    and ty: "\<not> (msg_type msg = REQUEST_STATS_INFO \<and> command_id data = STAT_COMMAND_RESET)"
  shows "stats_wf (slurmctld_req env msg data all_stat d st)"
proof -
  let ?a = "alloc_rpc_user (alloc_rpc_type st)"
  have wfa: "stats_wf ?a" "rpc_type_size ?a = 100" "rpc_user_size ?a = 200"
    using stats_wf_alloc[OF wf] by simp_all
  have t1: "take 1 (rpc_user_id ?a) = [0]"
    using wfa by (simp add: stats_wf_def)
  have t2: "take 1 (store (rpc_user_id ?a) (user_slot (rpc_user_id ?a) (auth_uid msg)) (auth_uid msg)) = [0]"
    by (rule take1_store_user[OF t1])
  show ?thesis
    unfolding slurmctld_req_plain[OF wf ok ty]
    using wfa t2 by (simp add: stats_wf_def)
qed

text \<open>The loops of \<^verbatim>\<open>_clear_rpc_stats\<close> zero the arrays from index \<open>i\<close> on.\<close>

lemma zero_fill_step:
  assumes "i < length xs"
  shows "take (Suc i) (xs[i := 0]) @ replicate (length xs - Suc i) (0::'a::len word)
       = take i xs @ replicate (length xs - i) 0"
proof -
  have "take (Suc i) (xs[i := 0]) = take i xs @ [0]"
    using assms by (simp add: take_Suc_conv_app_nth)
  moreover have "replicate (length xs - i) (0::'a word) = 0 # replicate (length xs - Suc i) 0"
    using assms by (metis Suc_diff_Suc replicate_Suc)
  ultimately show ?thesis by simp
qed

lemma clear_type_loop_eq:
  "i \<le> rpc_type_size st \<Longrightarrow>
   length (rpc_type_cnt st) = rpc_type_size st \<Longrightarrow>
   length (rpc_type_id st) = rpc_type_size st \<Longrightarrow>
   length (rpc_type_time st) = rpc_type_size st \<Longrightarrow>
   clear_type_loop i st =
     st\<lparr>rpc_type_cnt := take i (rpc_type_cnt st) @ replicate (rpc_type_size st - i) 0,
        rpc_type_id := take i (rpc_type_id st) @ replicate (rpc_type_size st - i) 0,
        rpc_type_time := take i (rpc_type_time st) @ replicate (rpc_type_size st - i) 0\<rparr>"
proof (induction i st rule: clear_type_loop.induct)
  case (1 i st)
  show ?case
  proof (cases "i < rpc_type_size st")
    case False
    with 1(2) have "i = rpc_type_size st" by simp
    then show ?thesis using 1(3-5) by (simp add: clear_type_loop_stop)
  next
    case True
    let ?st1 = "st\<lparr>rpc_type_cnt := (rpc_type_cnt st)[i := 0],
              rpc_type_id := (rpc_type_id st)[i := 0],
              rpc_type_time := (rpc_type_time st)[i := 0]\<rparr>"
    have ih: "clear_type_loop (i + 1) ?st1 =
        ?st1\<lparr>rpc_type_cnt := take (i + 1) (rpc_type_cnt ?st1) @ replicate (rpc_type_size ?st1 - (i + 1)) 0,
        rpc_type_id := take (i + 1) (rpc_type_id ?st1) @ replicate (rpc_type_size ?st1 - (i + 1)) 0,
        rpc_type_time := take (i + 1) (rpc_type_time ?st1) @ replicate (rpc_type_size ?st1 - (i + 1)) 0\<rparr>"
      using 1(1)[OF True] True 1(3-5) by simp
    have a: "take (Suc i) ((rpc_type_cnt st)[i := 0]) @ replicate (rpc_type_size st - Suc i) 0
           = take i (rpc_type_cnt st) @ replicate (rpc_type_size st - i) 0"
      using zero_fill_step[of i "rpc_type_cnt st"] True 1(3) by simp
    have b: "take (Suc i) ((rpc_type_id st)[i := 0]) @ replicate (rpc_type_size st - Suc i) 0
           = take i (rpc_type_id st) @ replicate (rpc_type_size st - i) 0"
      using zero_fill_step[of i "rpc_type_id st"] True 1(4) by simp
    have c: "take (Suc i) ((rpc_type_time st)[i := 0]) @ replicate (rpc_type_size st - Suc i) 0
           = take i (rpc_type_time st) @ replicate (rpc_type_size st - i) 0"
      using zero_fill_step[of i "rpc_type_time st"] True 1(5) by simp
    have "clear_type_loop i st = clear_type_loop (i + 1) ?st1"
      using True by (rule clear_type_loop_step)
    also note ih
    finally show ?thesis using a b c by simp
  qed
qed

lemma clear_user_loop_eq:
  "i \<le> rpc_user_size st \<Longrightarrow>
   length (rpc_user_cnt st) = rpc_user_size st \<Longrightarrow>
   length (rpc_user_id st) = rpc_user_size st \<Longrightarrow>
   length (rpc_user_time st) = rpc_user_size st \<Longrightarrow>
   clear_user_loop i st =
     st\<lparr>rpc_user_cnt := take i (rpc_user_cnt st) @ replicate (rpc_user_size st - i) 0,
        rpc_user_id := take i (rpc_user_id st) @ replicate (rpc_user_size st - i) 0,
        rpc_user_time := take i (rpc_user_time st) @ replicate (rpc_user_size st - i) 0\<rparr>"
proof (induction i st rule: clear_user_loop.induct)
  case (1 i st)
  show ?case
  proof (cases "i < rpc_user_size st")
    case False
    with 1(2) have "i = rpc_user_size st" by simp
    then show ?thesis using 1(3-5) by (simp add: clear_user_loop_stop)
  next
    case True
    let ?st1 = "st\<lparr>rpc_user_cnt := (rpc_user_cnt st)[i := 0],
              rpc_user_id := (rpc_user_id st)[i := 0],
              rpc_user_time := (rpc_user_time st)[i := 0]\<rparr>"
    have ih: "clear_user_loop (i + 1) ?st1 =
        ?st1\<lparr>rpc_user_cnt := take (i + 1) (rpc_user_cnt ?st1) @ replicate (rpc_user_size ?st1 - (i + 1)) 0,
        rpc_user_id := take (i + 1) (rpc_user_id ?st1) @ replicate (rpc_user_size ?st1 - (i + 1)) 0,
        rpc_user_time := take (i + 1) (rpc_user_time ?st1) @ replicate (rpc_user_size ?st1 - (i + 1)) 0\<rparr>"
      using 1(1)[OF True] True 1(3-5) by simp
    have a: "take (Suc i) ((rpc_user_cnt st)[i := 0]) @ replicate (rpc_user_size st - Suc i) 0
           = take i (rpc_user_cnt st) @ replicate (rpc_user_size st - i) 0"
      using zero_fill_step[of i "rpc_user_cnt st"] True 1(3) by simp
    have b: "take (Suc i) ((rpc_user_id st)[i := 0]) @ replicate (rpc_user_size st - Suc i) 0
           = take i (rpc_user_id st) @ replicate (rpc_user_size st - i) 0"
      using zero_fill_step[of i "rpc_user_id st"] True 1(4) by simp
    have c: "take (Suc i) ((rpc_user_time st)[i := 0]) @ replicate (rpc_user_size st - Suc i) 0
           = take i (rpc_user_time st) @ replicate (rpc_user_size st - i) 0"
      using zero_fill_step[of i "rpc_user_time st"] True 1(5) by simp
    have "clear_user_loop i st = clear_user_loop (i + 1) ?st1"
      using True by (rule clear_user_loop_step)
    also note ih
    finally show ?thesis using a b c by simp
  qed
qed

lemma clear_rpc_stats_eq:
  assumes "stats_wf st"
  shows "clear_rpc_stats st =
     st\<lparr>rpc_type_cnt := replicate (rpc_type_size st) 0,
        rpc_type_id := replicate (rpc_type_size st) 0,
        rpc_type_time := replicate (rpc_type_size st) 0,
        rpc_user_cnt := replicate (rpc_user_size st) 0,
        rpc_user_id := replicate (rpc_user_size st) 0,
        rpc_user_time := replicate (rpc_user_size st) 0\<rparr>"
proof -
  have l: "length (rpc_type_cnt st) = rpc_type_size st" "length (rpc_type_id st) = rpc_type_size st"
    "length (rpc_type_time st) = rpc_type_size st"
    "length (rpc_user_cnt st) = rpc_user_size st" "length (rpc_user_id st) = rpc_user_size st"
    "length (rpc_user_time st) = rpc_user_size st"
    using assms by (simp_all add: stats_wf_def)
  have t: "clear_type_loop 0 st = st\<lparr>rpc_type_cnt := replicate (rpc_type_size st) 0,
        rpc_type_id := replicate (rpc_type_size st) 0,
        rpc_type_time := replicate (rpc_type_size st) 0\<rparr>"
    using clear_type_loop_eq[of 0 st] l by simp
  show ?thesis
    unfolding clear_rpc_stats_def t
    using l by (subst clear_user_loop_eq) simp_all
qed

text \<open>The end-of-table scan of \<^verbatim>\<open>_pack_rpc_stats\<close>.\<close>

lemma used_scan_eq:
  "i \<le> length ids \<Longrightarrow>
   used_scan ids (length ids) i = i + length (takeWhile (\<lambda>y. y \<noteq> 0) (drop i ids))"
proof (induction ids "length ids" i rule: used_scan.induct)
  case (1 ids i)
  show ?case
  proof (cases "i < length ids")
    case False
    with 1(2) have "i = length ids" by simp
    then show ?thesis by (simp add: used_scan_stop)
  next
    case True
    then have d: "drop i ids = ids ! i # drop (Suc i) ids"
      by (simp add: Cons_nth_drop_Suc)
    show ?thesis
    proof (cases "ids ! i = 0")
      case True
      then show ?thesis using \<open>i < length ids\<close> d by (simp add: used_scan_step)
    next
      case False
      have "used_scan ids (length ids) (i + 1) =
            i + 1 + length (takeWhile (\<lambda>y. y \<noteq> 0) (drop (i + 1) ids))"
        using 1(1)[OF True False] True by simp
      then show ?thesis using True False d by (simp add: used_scan_step)
    qed
  qed
qed

lemma used_scan_from_1:
  "1 \<le> length ids \<Longrightarrow> 1 \<le> used_scan ids (length ids) 1"
  using used_scan_eq[of 1 ids] by simp

section \<open>Claims about the RPC telemetry\<close>

text \<open>
  C8 (as amended).  The telemetry is two bounded tables, by request type with 100 slots
  and by caller uid with 200 slots.  For every authenticated request other than a
  statistics reset: the slot of the request type is the first slot of the type table that
  is free or holds the type, the slot of the caller is slot 0 for uid 0 and otherwise the
  first slot from index 1 on that is free or holds the uid; the slot found gets the id,
  its count grows by one and its time by the latency; where a table has no such slot
  (it is full and no slot matches) its three arrays stay as they are.  The tables are all
  there is: no further counter records a dropped sample.
\<close>

theorem rpc_telemetry_sample:
  assumes "stats_wf st" and "auth_ok msg"
    and "\<not> (msg_type msg = REQUEST_STATS_INFO \<and> command_id data = STAT_COMMAND_RESET)"
  shows "(let a = alloc_rpc_user (alloc_rpc_type st);
              ts = first_slot (rpc_type_id a) (msg_type msg);
              us = user_slot (rpc_user_id a) (auth_uid msg);
              st' = slurmctld_req env msg data all_stat d st
          in stats_wf st' \<and> rpc_type_size st' = 100 \<and> rpc_user_size st' = 200
             \<and> rpc_type_id st' = store (rpc_type_id a) ts (msg_type msg)
             \<and> rpc_type_cnt st' = bump (rpc_type_cnt a) ts 1
             \<and> rpc_type_time st' = bump (rpc_type_time a) ts d
             \<and> rpc_user_id st' = store (rpc_user_id a) us (auth_uid msg)
             \<and> rpc_user_cnt st' = bump (rpc_user_cnt a) us 1
             \<and> rpc_user_time st' = bump (rpc_user_time a) us d)"
proof -
  have wfa: "rpc_type_size (alloc_rpc_user (alloc_rpc_type st)) = 100"
    "rpc_user_size (alloc_rpc_user (alloc_rpc_type st)) = 200"
    using stats_wf_alloc[OF assms(1)] by simp_all
  show ?thesis
    unfolding Let_def
    using stats_wf_slurmctld_req_plain[OF assms, of env all_stat d] wfa
    by (simp add: slurmctld_req_plain[OF assms])
qed

text \<open>Evaluation of the dispatcher on the example states.\<close>

lemma replicate_100: "replicate 100 x = x # x # replicate 98 x"
proof -
  have "(100::nat) = Suc (Suc 98)" by simp
  then show ?thesis by (simp only: replicate_Suc)
qed

lemma replicate_200: "replicate 200 x = x # x # x # replicate 197 x"
proof -
  have "(200::nat) = Suc (Suc (Suc 197))" by simp
  then show ?thesis by (simp only: replicate_Suc)
qed

lemma alloc_init:
  "alloc_rpc_user (alloc_rpc_type rpc_stats_init) =
     \<lparr>rpc_type_size = 100, rpc_type_id = replicate 100 0, rpc_type_cnt = replicate 100 0,
      rpc_type_time = replicate 100 0,
      rpc_user_size = 200, rpc_user_id = replicate 200 0, rpc_user_cnt = replicate 200 0,
      rpc_user_time = replicate 200 0\<rparr>"
  by (simp add: alloc_rpc_user_def alloc_rpc_type_def rpc_stats_init_def xmalloc_def)

lemma stats_wf_init: "stats_wf rpc_stats_init"
  by (simp add: stats_wf_def rpc_stats_init_def)

text \<open>
  The first request ever, a ping of uid 1000 that took 7 time units: type slot 0 and user
  slot 1 are taken.
\<close>

theorem rpc_telemetry_sample_witness:
  "stats_wf rpc_stats_init
   \<and> auth_ok (example_msg 1000 REQUEST_PING)
   \<and> \<not> (msg_type (example_msg 1000 REQUEST_PING) = REQUEST_STATS_INFO
          \<and> command_id \<lparr>command_id = STAT_COMMAND_GET\<rparr> = STAT_COMMAND_RESET)
   \<and> (let st' = slurmctld_req example_env (example_msg 1000 REQUEST_PING)
                   \<lparr>command_id = STAT_COMMAND_GET\<rparr> [] 7 rpc_stats_init
       in rpc_type_size st' = 100 \<and> rpc_user_size st' = 200
          \<and> take 2 (rpc_type_id st') = [REQUEST_PING, 0]
          \<and> take 2 (rpc_type_cnt st') = [1, 0]
          \<and> take 2 (rpc_type_time st') = [7, 0]
          \<and> take 3 (rpc_user_id st') = [0, 1000, 0]
          \<and> take 3 (rpc_user_cnt st') = [0, 1, 0]
          \<and> take 3 (rpc_user_time st') = [0, 7, 0])"
proof -
  have h1: "stats_wf rpc_stats_init" by (rule stats_wf_init)
  have h2: "auth_ok (example_msg 1000 REQUEST_PING)" by (simp add: example_msg_def)
  have h3: "\<not> (msg_type (example_msg 1000 REQUEST_PING) = REQUEST_STATS_INFO
          \<and> command_id \<lparr>command_id = STAT_COMMAND_GET\<rparr> = STAT_COMMAND_RESET)"
    by (simp add: STAT_COMMAND_GET_def STAT_COMMAND_RESET_def)
  have ts: "first_slot (0 # 0 # replicate 98 0) REQUEST_PING = Some 0"
    by (simp add: first_slot_Cons)
  have us: "user_slot (0 # 0 # 0 # replicate 197 0) (1000::uint32_t) = Some 1"
    by (simp add: user_slot_def first_slot_Cons)
  show ?thesis
    using h1 h2 h3
      rpc_telemetry_sample[OF h1 h2 h3, of example_env "[]" 7]
    unfolding Let_def alloc_init
    by (simp add: ts us example_msg_def store_def bump_def replicate_100 replicate_200)
qed


lemma stats_wf_user_full: "stats_wf rpc_stats_user_full"
  by (simp add: stats_wf_def rpc_stats_user_full_def)

lemma user_full_no_slot:
  "user_slot (0 # map of_nat [1..<200]) (1000::uint32_t) = None"
proof -
  have "of_nat n \<noteq> (0::uint32_t) \<and> of_nat n \<noteq> (1000::uint32_t)" if "1 \<le> n" "n < 200" for n
  proof -
    have "n < 2 ^ LENGTH(32)" using that by simp
    then have u: "unat (of_nat n :: uint32_t) = n"
      by (rule of_nat_inverse[OF refl])
    have "unat (0::uint32_t) = 0" "unat (1000::uint32_t) = 1000" by simp_all
    with u that show ?thesis by auto
  qed
  then have "first_slot (map of_nat [1..<200]) (1000::uint32_t) = None"
    by (auto simp: first_slot_None_iff)
  then show ?thesis by (simp add: user_slot_def)
qed

text \<open>
  C8 as stated fails in its last part: with the user table full (uids 1 to 199 in slots
  1 to 199) a ping of uid 1000 changes the count and time of the ping slot of the type
  table and nothing else; the sample is counted under no user entry and under no
  ``other'' entry.
\<close>

theorem rpc_telemetry_overflow_not_counted:
  "slurmctld_req example_env (example_msg 1000 REQUEST_PING)
       \<lparr>command_id = STAT_COMMAND_GET\<rparr> [] 7 rpc_stats_user_full
   = rpc_stats_user_full
       \<lparr>rpc_type_cnt := 200 # replicate 99 0, rpc_type_time := 206 # replicate 99 0\<rparr>"
proof -
  have h2: "auth_ok (example_msg 1000 REQUEST_PING)" by (simp add: example_msg_def)
  have h3: "\<not> (msg_type (example_msg 1000 REQUEST_PING) = REQUEST_STATS_INFO
          \<and> command_id \<lparr>command_id = STAT_COMMAND_GET\<rparr> = STAT_COMMAND_RESET)"
    by (simp add: STAT_COMMAND_GET_def STAT_COMMAND_RESET_def)
  have a: "alloc_rpc_user (alloc_rpc_type rpc_stats_user_full) = rpc_stats_user_full"
    by (rule alloc_idem) (simp_all add: rpc_stats_user_full_def)
  have ts: "first_slot (rpc_type_id rpc_stats_user_full) REQUEST_PING = Some 0"
    by (simp add: rpc_stats_user_full_def first_slot_Cons)
  have us: "user_slot (rpc_user_id rpc_stats_user_full) 1000 = None"
    using user_full_no_slot by (simp add: rpc_stats_user_full_def)
  show ?thesis
    unfolding slurmctld_req_plain[OF stats_wf_user_full h2 h3] a
    by (simp add: example_msg_def ts us store_def bump_def)
      (simp add: rpc_stats_user_full_def)
qed


section \<open>The three identity checks\<close>

lemma validate_slurm_user_iff:
  "validate_slurm_user env uid \<longleftrightarrow> uid = 0 \<or> uid = getuid env"
  by (simp add: validate_slurm_user_def)

lemma validate_super_user_iff:
  "validate_super_user env uid \<longleftrightarrow>
     uid = 0 \<or> uid = getuid env
     \<or> assoc_mgr_get_admin_level env uid = SLURMDB_ADMIN_SUPER_USER"
  by (cases "assoc_mgr_get_admin_level env uid") (simp_all add: validate_super_user_def)

lemma validate_operator_iff:
  "validate_operator env uid \<longleftrightarrow>
     uid = 0 \<or> uid = getuid env
     \<or> assoc_mgr_get_admin_level env uid = SLURMDB_ADMIN_OPERATOR
     \<or> assoc_mgr_get_admin_level env uid = SLURMDB_ADMIN_SUPER_USER"
  by (cases "assoc_mgr_get_admin_level env uid") (simp_all add: validate_operator_def)

lemma validate_slurm_super: "validate_slurm_user env uid \<Longrightarrow> validate_super_user env uid"
  using validate_slurm_user_iff validate_super_user_iff by blast

lemma validate_super_operator: "validate_super_user env uid \<Longrightarrow> validate_operator env uid"
  using validate_operator_iff validate_super_user_iff by blast

text \<open>
  C9.  For a statistics request with the reset command on allocated or unallocated
  tables: a caller that is not a super user gets the return code AccessDenied and the
  tables are unchanged; and whenever the reply is not AccessDenied the caller is a super
  user and every entry (id, count and time) of the type table and of the user table is
  zero afterwards.
\<close>

theorem stats_reset_super_user_only:
  assumes "stats_wf st" and "command_id request_msg = STAT_COMMAND_RESET"
  shows "(\<not> validate_super_user env (auth_uid msg) \<longrightarrow>
            slurm_rpc_dump_stats env msg request_msg all_stat st
              = (st, [Send (Rc_msg ESLURM_ACCESS_DENIED)]))
       \<and> (snd (slurm_rpc_dump_stats env msg request_msg all_stat st)
              \<noteq> [Send (Rc_msg ESLURM_ACCESS_DENIED)] \<longrightarrow>
            validate_super_user env (auth_uid msg)
            \<and> (let st' = fst (slurm_rpc_dump_stats env msg request_msg all_stat st)
               in rpc_type_size st' = rpc_type_size st
                \<and> rpc_user_size st' = rpc_user_size st
                \<and> rpc_type_id st' = replicate (rpc_type_size st) 0
                \<and> rpc_type_cnt st' = replicate (rpc_type_size st) 0
                \<and> rpc_type_time st' = replicate (rpc_type_size st) 0
                \<and> rpc_user_id st' = replicate (rpc_user_size st) 0
                \<and> rpc_user_cnt st' = replicate (rpc_user_size st) 0
                \<and> rpc_user_time st' = replicate (rpc_user_size st) 0))"
proof (cases "validate_slurm_user env (auth_uid msg)")
  case False
  then show ?thesis
    using assms(2) by (simp add: slurm_rpc_dump_stats_def)
next
  case True
  then have "validate_super_user env (auth_uid msg)" by (rule validate_slurm_super)
  moreover have "fst (slurm_rpc_dump_stats env msg request_msg all_stat st) = clear_rpc_stats st"
    using True assms(2) by (simp add: slurm_rpc_dump_stats_def Let_def)
  ultimately show ?thesis
    by (simp add: clear_rpc_stats_eq[OF assms(1)])
qed

theorem stats_reset_super_user_only_witness:
  "stats_wf rpc_stats_user_full
   \<and> command_id \<lparr>command_id = STAT_COMMAND_RESET\<rparr> = STAT_COMMAND_RESET
   \<and> \<not> validate_super_user example_env (auth_uid (example_msg 1000 REQUEST_STATS_INFO))
   \<and> slurm_rpc_dump_stats example_env (example_msg 1000 REQUEST_STATS_INFO)
        \<lparr>command_id = STAT_COMMAND_RESET\<rparr> [] rpc_stats_user_full
       = (rpc_stats_user_full, [Send (Rc_msg ESLURM_ACCESS_DENIED)])
   \<and> snd (slurm_rpc_dump_stats example_env (example_msg 990 REQUEST_STATS_INFO)
        \<lparr>command_id = STAT_COMMAND_RESET\<rparr> [] rpc_stats_user_full)
       \<noteq> [Send (Rc_msg ESLURM_ACCESS_DENIED)]
   \<and> validate_super_user example_env (auth_uid (example_msg 990 REQUEST_STATS_INFO))
   \<and> rpc_user_id (fst (slurm_rpc_dump_stats example_env (example_msg 990 REQUEST_STATS_INFO)
        \<lparr>command_id = STAT_COMMAND_RESET\<rparr> [] rpc_stats_user_full)) = replicate 200 0
   \<and> rpc_user_cnt (fst (slurm_rpc_dump_stats example_env (example_msg 990 REQUEST_STATS_INFO)
        \<lparr>command_id = STAT_COMMAND_RESET\<rparr> [] rpc_stats_user_full)) = replicate 200 0
   \<and> rpc_type_cnt (fst (slurm_rpc_dump_stats example_env (example_msg 990 REQUEST_STATS_INFO)
        \<lparr>command_id = STAT_COMMAND_RESET\<rparr> [] rpc_stats_user_full)) = replicate 100 0"
proof -
  have h1: "stats_wf rpc_stats_user_full" by (rule stats_wf_user_full)
  have h2: "command_id \<lparr>command_id = STAT_COMMAND_RESET\<rparr> = STAT_COMMAND_RESET" by simp
  have n: "\<not> validate_super_user example_env (auth_uid (example_msg 1000 REQUEST_STATS_INFO))"
    by (simp add: validate_super_user_def example_env_def example_msg_def)
  have y: "snd (slurm_rpc_dump_stats example_env (example_msg 990 REQUEST_STATS_INFO)
        \<lparr>command_id = STAT_COMMAND_RESET\<rparr> [] rpc_stats_user_full)
       \<noteq> [Send (Rc_msg ESLURM_ACCESS_DENIED)]"
    by (simp add: slurm_rpc_dump_stats_def validate_slurm_user_def example_env_def
        example_msg_def Let_def)
  have sz: "rpc_type_size rpc_stats_user_full = 100" "rpc_user_size rpc_stats_user_full = 200"
    by (simp_all add: rpc_stats_user_full_def)
  show ?thesis
    using h1 n y
      stats_reset_super_user_only[OF h1 h2, of example_env "example_msg 1000 REQUEST_STATS_INFO" "[]"]
      stats_reset_super_user_only[OF h1 h2, of example_env "example_msg 990 REQUEST_STATS_INFO" "[]"]
    by (simp add: Let_def sz)
qed

text \<open>
  The check of the handler is \<open>validate_slurm_user\<close>: a super user by administrator
  level who is neither root nor the daemon's own uid is refused as well.
\<close>

lemma stats_reset_admin_denied:
  "validate_super_user example_env 3000
   \<and> slurm_rpc_dump_stats example_env (example_msg 3000 REQUEST_STATS_INFO)
        \<lparr>command_id = STAT_COMMAND_RESET\<rparr> [] st
       = (st, [Send (Rc_msg ESLURM_ACCESS_DENIED)])"
  by (simp add: slurm_rpc_dump_stats_def validate_slurm_user_def validate_super_user_def
      example_env_def example_msg_def)


text \<open>Slot 0 of the user table and the serialized statistics.\<close>

lemma bump_nth_0:
  "xs \<noteq> [] \<Longrightarrow> bump xs (user_slot ids u) d ! 0 = xs ! 0 + (if user_slot ids u = Some 0 then d else 0)"
  by (cases "user_slot ids u") (auto simp: bump_def nth_list_update)

lemma user_slot_Some_0_iff: "ids \<noteq> [] \<Longrightarrow> user_slot ids u = Some 0 \<longleftrightarrow> u = 0"
  by (auto simp: user_slot_def)

lemma pack_rpc_stats_eq:
  assumes "\<not> pv < SLURM_14_11_PROTOCOL_VERSION"
  shows "pack_rpc_stats st pv buffer =
     buffer @
     [Pack32 (of_nat (used_scan (rpc_type_id st) (rpc_type_size st) 0)),
      Pack16_array (take (used_scan (rpc_type_id st) (rpc_type_size st) 0) (rpc_type_id st)),
      Pack32_array (take (used_scan (rpc_type_id st) (rpc_type_size st) 0) (rpc_type_cnt st)),
      Pack64_array (take (used_scan (rpc_type_id st) (rpc_type_size st) 0) (rpc_type_time st)),
      Pack32 (of_nat (used_scan (rpc_user_id st) (rpc_user_size st) 1)),
      Pack32_array (take (used_scan (rpc_user_id st) (rpc_user_size st) 1) (rpc_user_id st)),
      Pack32_array (take (used_scan (rpc_user_id st) (rpc_user_size st) 1) (rpc_user_cnt st)),
      Pack64_array (take (used_scan (rpc_user_id st) (rpc_user_size st) 1) (rpc_user_time st))]"
  using assms
  by (simp add: pack_rpc_stats_def Let_def pack32_def pack16_array_def pack32_array_def
      pack64_array_def)

text \<open>
  C10 (as amended).  After every authenticated request other than a statistics reset,
  slot 0 of the user table still carries id 0, and its count and time have grown exactly
  when the caller was uid 0.  The dump (protocol version 14.11 or later) looks for the
  end of the used user entries from index 1 on, so that the number \<open>j\<close> of serialized
  user entries is at least 1, and it serializes the entries from index 0 to \<open>j - 1\<close>:
  the first serialized user entry is slot 0, the counters of uid 0.
\<close>

theorem uid0_slot_and_dump:
  assumes "stats_wf st" and "auth_ok msg"
    and "\<not> (msg_type msg = REQUEST_STATS_INFO \<and> command_id data = STAT_COMMAND_RESET)"
    and "\<not> pv < SLURM_14_11_PROTOCOL_VERSION"
  shows "(let a = alloc_rpc_user (alloc_rpc_type st);
              st' = slurmctld_req env msg data all_stat d st;
              j = used_scan (rpc_user_id st') (rpc_user_size st') 1
          in rpc_user_id st' ! 0 = 0
           \<and> rpc_user_cnt st' ! 0 = rpc_user_cnt a ! 0 + (if auth_uid msg = 0 then 1 else 0)
           \<and> rpc_user_time st' ! 0 = rpc_user_time a ! 0 + (if auth_uid msg = 0 then d else 0)
           \<and> 1 \<le> j
           \<and> drop 4 (pack_rpc_stats st' pv []) =
               [Pack32 (of_nat j), Pack32_array (take j (rpc_user_id st')),
                Pack32_array (take j (rpc_user_cnt st')), Pack64_array (take j (rpc_user_time st'))]
           \<and> hd (take j (rpc_user_id st')) = 0
           \<and> hd (take j (rpc_user_cnt st')) = rpc_user_cnt st' ! 0
           \<and> hd (take j (rpc_user_time st')) = rpc_user_time st' ! 0)"
proof -
  let ?a = "alloc_rpc_user (alloc_rpc_type st)"
  let ?st' = "slurmctld_req env msg data all_stat d st"
  let ?j = "used_scan (rpc_user_id ?st') (rpc_user_size ?st') 1"
  have wfa: "stats_wf ?a" "rpc_user_size ?a = 200"
    using stats_wf_alloc[OF assms(1)] by simp_all
  have la: "length (rpc_user_id ?a) = 200" "length (rpc_user_cnt ?a) = 200"
    "length (rpc_user_time ?a) = 200"
    using wfa by (simp_all add: stats_wf_def)
  then have ne: "rpc_user_id ?a \<noteq> []" "rpc_user_cnt ?a \<noteq> []" "rpc_user_time ?a \<noteq> []"
    by auto
  have wf': "stats_wf ?st'" by (rule stats_wf_slurmctld_req_plain[OF assms(1-3)])
  have sz': "rpc_user_size ?st' = 200"
    by (simp add: slurmctld_req_plain[OF assms(1-3)] wfa)
  have l': "length (rpc_user_id ?st') = 200" "length (rpc_user_cnt ?st') = 200"
    "length (rpc_user_time ?st') = 200"
    using wf' sz' by (simp_all add: stats_wf_def)
  have id0: "rpc_user_id ?st' ! 0 = 0"
  proof -
    have "take 1 (rpc_user_id ?st') = [0]" using wf' sz' by (simp add: stats_wf_def)
    then show ?thesis using l'(1) by (cases "rpc_user_id ?st'") auto
  qed
  have c0: "rpc_user_cnt ?st' ! 0 = rpc_user_cnt ?a ! 0 + (if auth_uid msg = 0 then 1 else 0)"
    by (simp add: slurmctld_req_plain[OF assms(1-3)] bump_nth_0[OF ne(2)]
        user_slot_Some_0_iff[OF ne(1)])
  have t0: "rpc_user_time ?st' ! 0 = rpc_user_time ?a ! 0 + (if auth_uid msg = 0 then d else 0)"
    by (simp add: slurmctld_req_plain[OF assms(1-3)] bump_nth_0[OF ne(3)]
        user_slot_Some_0_iff[OF ne(1)])
  have j1: "1 \<le> ?j"
    using used_scan_from_1[of "rpc_user_id ?st'"] l'(1) sz' by simp
  have hd_take: "\<And>xs::'b list. length xs = 200 \<Longrightarrow> hd (take ?j xs) = xs ! 0"
    using j1 by (metis One_nat_def hd_conv_nth length_greater_0_conv less_numeral_extra(1)
        not_one_le_zero nth_take take_eq_Nil zero_less_numeral less_le_trans list.size(3)
        not_less_eq_eq le_zero_eq)
  show ?thesis
    unfolding Let_def
    using id0 c0 t0 j1 hd_take[OF l'(1)] hd_take[OF l'(2)] hd_take[OF l'(3)]
    by (simp add: pack_rpc_stats_eq[OF assms(4)])
qed


lemma replicate_Suc_numeral: "replicate (numeral k) x = x # replicate (pred_numeral k) x"
  by (simp add: numeral_eq_Suc)

lemma root_ping_state:
  "slurmctld_req example_env (example_msg 0 REQUEST_PING) \<lparr>command_id = STAT_COMMAND_GET\<rparr> [] 5
     rpc_stats_init =
   \<lparr>rpc_type_size = 100, rpc_type_id = REQUEST_PING # replicate 99 0,
    rpc_type_cnt = 1 # replicate 99 0, rpc_type_time = 5 # replicate 99 0,
    rpc_user_size = 200, rpc_user_id = 0 # replicate 199 0,
    rpc_user_cnt = 1 # replicate 199 0, rpc_user_time = 5 # replicate 199 0\<rparr>"
proof -
  have h2: "auth_ok (example_msg 0 REQUEST_PING)" by (simp add: example_msg_def)
  have h3: "\<not> (msg_type (example_msg 0 REQUEST_PING) = REQUEST_STATS_INFO
          \<and> command_id \<lparr>command_id = STAT_COMMAND_GET\<rparr> = STAT_COMMAND_RESET)"
    by (simp add: STAT_COMMAND_GET_def STAT_COMMAND_RESET_def)
  have r: "replicate 100 (0::'a::len word) = 0 # replicate 99 0"
    "replicate 200 (0::'a::len word) = 0 # replicate 199 0"
    by (simp_all only: replicate_Suc_numeral pred_numeral_simps num.simps BitM.simps)
  have ts: "first_slot (0 # replicate 99 0) REQUEST_PING = Some 0"
    by (simp add: first_slot_Cons)
  have us: "user_slot (0 # replicate 199 0) (0::uint32_t) = Some 0"
    by (simp add: user_slot_def)
  show ?thesis
    unfolding slurmctld_req_plain[OF stats_wf_init h2 h3] alloc_init r
    by (simp add: example_msg_def ts us store_def bump_def)
qed

theorem uid0_slot_and_dump_witness:
  "stats_wf rpc_stats_init
   \<and> auth_ok (example_msg 0 REQUEST_PING)
   \<and> \<not> (msg_type (example_msg 0 REQUEST_PING) = REQUEST_STATS_INFO
          \<and> command_id \<lparr>command_id = STAT_COMMAND_GET\<rparr> = STAT_COMMAND_RESET)
   \<and> \<not> SLURM_14_11_PROTOCOL_VERSION < SLURM_14_11_PROTOCOL_VERSION
   \<and> (let st' = slurmctld_req example_env (example_msg 0 REQUEST_PING)
                   \<lparr>command_id = STAT_COMMAND_GET\<rparr> [] 5 rpc_stats_init
       in rpc_user_id st' ! 0 = 0 \<and> rpc_user_cnt st' ! 0 = 1 \<and> rpc_user_time st' ! 0 = 5
        \<and> drop 4 (pack_rpc_stats st' SLURM_14_11_PROTOCOL_VERSION []) =
             [Pack32 1, Pack32_array [0], Pack32_array [1], Pack64_array [5]])"
proof -
  have h1: "stats_wf rpc_stats_init" by (rule stats_wf_init)
  have h2: "auth_ok (example_msg 0 REQUEST_PING)" by (simp add: example_msg_def)
  have h3: "\<not> (msg_type (example_msg 0 REQUEST_PING) = REQUEST_STATS_INFO
          \<and> command_id \<lparr>command_id = STAT_COMMAND_GET\<rparr> = STAT_COMMAND_RESET)"
    by (simp add: STAT_COMMAND_GET_def STAT_COMMAND_RESET_def)
  have h4: "\<not> SLURM_14_11_PROTOCOL_VERSION < SLURM_14_11_PROTOCOL_VERSION" by simp
  have j: "used_scan (0 # replicate 199 (0::uint32_t)) 200 (Suc 0) = Suc 0"
    by (simp add: used_scan_step)
  show ?thesis
    using h1 h2 h3 h4 uid0_slot_and_dump[OF h1 h2 h3 h4, of example_env "[]" 5]
    unfolding Let_def root_ping_state alloc_init
    by (simp add: j example_msg_def)
qed

text \<open>
  C10 as stated fails in its conclusion: after a ping of uid 0 (5 time units) and a ping
  of uid 1000 (7 time units) the serialized statistics hold two user entries, the first
  of them uid 0 with count 1 and time 5.
\<close>

theorem uid0_counters_serialized:
  "pack_rpc_stats
     (slurmctld_req example_env (example_msg 1000 REQUEST_PING) \<lparr>command_id = STAT_COMMAND_GET\<rparr> [] 7
        (slurmctld_req example_env (example_msg 0 REQUEST_PING) \<lparr>command_id = STAT_COMMAND_GET\<rparr> [] 5
           rpc_stats_init))
     SLURM_14_11_PROTOCOL_VERSION []
   = [Pack32 1, Pack16_array [REQUEST_PING], Pack32_array [2], Pack64_array [12],
      Pack32 2, Pack32_array [0, 1000], Pack32_array [1, 1], Pack64_array [5, 7]]"
proof -
  let ?st1 = "\<lparr>rpc_type_size = 100, rpc_type_id = REQUEST_PING # replicate 99 0,
    rpc_type_cnt = 1 # replicate 99 0, rpc_type_time = 5 # replicate 99 0,
    rpc_user_size = 200, rpc_user_id = 0 # replicate 199 0,
    rpc_user_cnt = 1 # replicate 199 0, rpc_user_time = 5 # replicate 199 (0::uint64_t)\<rparr>"
  have wf1: "stats_wf ?st1" by (simp add: stats_wf_def)
  have h2: "auth_ok (example_msg 1000 REQUEST_PING)" by (simp add: example_msg_def)
  have h3: "\<not> (msg_type (example_msg 1000 REQUEST_PING) = REQUEST_STATS_INFO
          \<and> command_id \<lparr>command_id = STAT_COMMAND_GET\<rparr> = STAT_COMMAND_RESET)"
    by (simp add: STAT_COMMAND_GET_def STAT_COMMAND_RESET_def)
  have a: "alloc_rpc_user (alloc_rpc_type ?st1) = ?st1"
    by (rule alloc_idem) simp_all
  have r: "replicate 199 (0::'a::len word) = 0 # replicate 198 0"
    "replicate 99 (0::'a::len word) = 0 # replicate 98 0"
    by (simp_all only: replicate_Suc_numeral pred_numeral_simps num.simps BitM.simps)
  have ts: "first_slot (REQUEST_PING # 0 # replicate 98 0) REQUEST_PING = Some 0"
    by (simp add: first_slot_Cons)
  have us: "user_slot (0 # 0 # replicate 198 0) (1000::uint32_t) = Some 1"
    by (simp add: user_slot_def first_slot_Cons)
  have st2: "slurmctld_req example_env (example_msg 1000 REQUEST_PING)
       \<lparr>command_id = STAT_COMMAND_GET\<rparr> [] 7 ?st1 =
    \<lparr>rpc_type_size = 100, rpc_type_id = REQUEST_PING # 0 # replicate 98 0,
    rpc_type_cnt = 2 # replicate 99 0, rpc_type_time = 12 # replicate 99 0,
    rpc_user_size = 200, rpc_user_id = 0 # 1000 # replicate 198 0,
    rpc_user_cnt = 1 # 1 # replicate 198 0, rpc_user_time = 5 # 7 # replicate 198 0\<rparr>"
    unfolding slurmctld_req_plain[OF wf1 h2 h3] a
    by (simp add: example_msg_def ts us r store_def bump_def)
  have i: "used_scan (REQUEST_PING # 0 # replicate 98 0) 100 0 = 1"
    by (simp add: used_scan_step REQUEST_PING_def)
  have j: "used_scan (0 # 1000 # replicate 198 (0::uint32_t)) 200 (Suc 0) = Suc (Suc 0)"
    by (simp add: used_scan_step)
  show ?thesis
    unfolding root_ping_state st2
    by (simp add: pack_rpc_stats_eq i j)
qed


section \<open>Claims about job submission and allocation\<close>



text \<open>The callers of the example configuration.\<close>

lemma example_slurm_user [simp]:
  "validate_slurm_user example_env 0" "validate_slurm_user example_env 990"
  "\<not> validate_slurm_user example_env 1000" "\<not> validate_slurm_user example_env 2000"
  "\<not> validate_slurm_user example_env 3000"
  by (simp_all add: validate_slurm_user_def example_env_def)

lemma example_super_user [simp]:
  "validate_super_user example_env 0" "validate_super_user example_env 990"
  "\<not> validate_super_user example_env 1000" "\<not> validate_super_user example_env 2000"
  "validate_super_user example_env 3000"
  by (simp_all add: validate_super_user_def example_env_def)

lemma example_operator [simp]:
  "validate_operator example_env 0" "validate_operator example_env 990"
  "\<not> validate_operator example_env 1000" "validate_operator example_env 2000"
  "validate_operator example_env 3000"
  by (simp_all add: validate_operator_def example_env_def)




section \<open>Claims about batch completion\<close>

text \<open>Calls and responses of a trace, element by element.\<close>

lemma calls_Nil [simp]: "calls f [] = []"
  by (simp add: calls_def)

lemma calls_Cons_Call [simp]:
  "calls f (Call g args # tr) = (if g = f then args # calls f tr else calls f tr)"
  by (simp add: calls_def)

lemma calls_Cons_Send [simp]: "calls f (Send r # tr) = calls f tr"
  by (simp add: calls_def)

lemma calls_append [simp]: "calls f (tr @ tr') = calls f tr @ calls f tr'"
  by (simp add: calls_def)

lemma responses_Nil [simp]: "responses [] = []"
  by (simp add: responses_def)

lemma responses_Cons_Call [simp]: "responses (Call g args # tr) = responses tr"
  by (simp add: responses_def)

lemma responses_Cons_Send [simp]: "responses (Send r # tr) = Send r # responses tr"
  by (simp add: responses_def)

lemma responses_append [simp]: "responses (tr @ tr') = responses tr @ responses tr'"
  by (simp add: responses_def)

text \<open>
  Only the chain of tests on \<^verbatim>\<open>slurm_rc\<close> drains; the rest of the handler completes
  the job once, with the requeue flag the chain has set.
\<close>

lemma batch_mark_complete_calls:
  "calls ''drain_nodes'' (batch_mark_complete cfg ext msg comp_msg ec rq dj dn bl) = []"
  "calls ''update_front_end'' (batch_mark_complete cfg ext msg comp_msg ec rq dj dn bl) = []"
  "calls ''job_complete'' (batch_mark_complete cfg ext msg comp_msg ec rq dj dn bl) =
     [[U32 (comp_job_id comp_msg), U32 (auth_uid msg), Flag rq, Flag False,
       U32 (job_rc comp_msg)]]"
  by (simp_all add: batch_mark_complete_def Let_def split: prod.splits)

lemma batch_accounting_calls:
  "calls ''drain_nodes'' (batch_accounting ext j) = []"
  "calls ''update_front_end'' (batch_accounting ext j) = []"
  "calls ''job_complete'' (batch_accounting ext j) = []"
  by (simp_all add: batch_accounting_def)

lemma complete_batch_script_calls:
  assumes "validate_slurm_user env (auth_uid msg)"
    and "\<not> batch_wrong_node (find_job_record ext) comp_msg"
    and "batch_rc_actions cfg env ext (find_job_record ext) comp_msg = (tr, ec, rq, dj, dn, bl)"
  shows "calls ''drain_nodes'' (slurm_rpc_complete_batch_script cfg env ext msg comp_msg)
           = calls ''drain_nodes'' tr"
    and "calls ''update_front_end'' (slurm_rpc_complete_batch_script cfg env ext msg comp_msg)
           = calls ''update_front_end'' tr"
    and "calls ''job_complete'' (slurm_rpc_complete_batch_script cfg env ext msg comp_msg)
           = calls ''job_complete'' tr
             @ [[U32 (comp_job_id comp_msg), U32 (auth_uid msg), Flag rq, Flag False,
                 U32 (job_rc comp_msg)]]"
  using assms
  by (simp_all add: slurm_rpc_complete_batch_script_def Let_def batch_mark_complete_calls
      batch_accounting_calls)


text \<open>The four outcomes of the chain of tests on \<^verbatim>\<open>slurm_rc\<close>.\<close>

lemma batch_rc_actions_benign:
  "slurm_rc comp_msg \<in> {ESLURM_ALREADY_DONE, ESLURMD_CREDENTIAL_REVOKED} \<Longrightarrow>
   batch_rc_actions cfg env ext j comp_msg = ([], SLURM_SUCCESS, False, False, False, False)"
  by (auto simp: batch_rc_actions_def)

lemma batch_rc_actions_alps:
  "HAVE_ALPS_CRAY cfg \<Longrightarrow> slurm_rc comp_msg = ESLURM_RESERVATION_NOT_USABLE \<Longrightarrow>
   batch_rc_actions cfg env ext j comp_msg = ([], SLURM_SUCCESS, True, True, False, False)"
  by (simp add: batch_rc_actions_def)

lemma batch_rc_actions_logged:
  "slurm_rc comp_msg \<in> {SLURM_COMMUNICATIONS_SEND_ERROR, ESLURM_USER_ID_MISSING,
      ESLURMD_UID_NOT_FOUND, ESLURMD_GID_NOT_FOUND, ESLURMD_INVALID_ACCT_FREQ} \<Longrightarrow>
   batch_rc_actions cfg env ext j comp_msg = ([], SLURM_SUCCESS, False, False, False, False)"
  by (auto simp: batch_rc_actions_def)

lemma batch_rc_actions_other:
  assumes "slurm_rc comp_msg \<notin> {SLURM_SUCCESS, ESLURM_ALREADY_DONE, ESLURMD_CREDENTIAL_REVOKED,
      SLURM_COMMUNICATIONS_SEND_ERROR, ESLURM_USER_ID_MISSING,
      ESLURMD_UID_NOT_FOUND, ESLURMD_GID_NOT_FOUND, ESLURMD_INVALID_ACCT_FREQ}"
    and "\<not> (HAVE_ALPS_CRAY cfg \<and> slurm_rc comp_msg = ESLURM_RESERVATION_NOT_USABLE)"
  shows "\<exists>tr ec bl.
     batch_rc_actions cfg env ext j comp_msg =
       (Call ''slurmctld_diag_stats.jobs_failed++'' [] # tr, ec,
        (job_rc comp_msg \<noteq> 0) \<and> batch_requeue_permitted j, True, True, bl)
     \<and> calls ''job_complete'' tr = []
     \<and> (HAVE_BG cfg \<or> HAVE_FRONT_END cfg \<or>
          tr = [Call ''drain_nodes''
                 [str_arg (node_name comp_msg), Str ''batch job complete failure'',
                  U32 (getuid env)]])"
  using assms
  by (auto simp: batch_rc_actions_def Let_def split: option.splits)

text \<open>
  C2 (as amended).  For every batch-complete RPC of the slurm user that comes from the
  batch host of the job: if slurmd\_rc is AlreadyDone or CredentialRevoked it is treated
  as success, no node is drained and the job is completed without a requeue request; if
  slurmd\_rc is ReservationNotUsable in a build for Cray ALPS, no node is drained and the
  job is completed with a requeue request; if slurmd\_rc is CommError, UserIdMissing,
  UidNotFound, GidNotFound or InvalidAcctFreq, no node is drained and no requeue is
  requested; every other non-zero slurmd\_rc (ReservationNotUsable among them in any other
  build) drains, in a build without front end and without BlueGene, the reporting node
  with the reason ``batch job complete failure'', and the job is completed with a requeue
  request exactly if the script return code is not zero and the job's details permit a
  requeue.
\<close>

theorem batch_complete_slurmd_rc:
  assumes su: "validate_slurm_user env (auth_uid msg)"
    and wn: "\<not> batch_wrong_node (find_job_record ext) comp_msg"
  shows "(let tr = slurm_rpc_complete_batch_script cfg env ext msg comp_msg;
              completed = (\<lambda>job_requeue.
                 [[U32 (comp_job_id comp_msg), U32 (auth_uid msg), Flag job_requeue, Flag False,
                   U32 (job_rc comp_msg)]])
          in (slurm_rc comp_msg \<in> {ESLURM_ALREADY_DONE, ESLURMD_CREDENTIAL_REVOKED} \<longrightarrow>
                calls ''drain_nodes'' tr = [] \<and> calls ''update_front_end'' tr = []
                \<and> calls ''job_complete'' tr = completed False)
           \<and> (HAVE_ALPS_CRAY cfg \<and> slurm_rc comp_msg = ESLURM_RESERVATION_NOT_USABLE \<longrightarrow>
                calls ''drain_nodes'' tr = [] \<and> calls ''update_front_end'' tr = []
                \<and> calls ''job_complete'' tr = completed True)
           \<and> (slurm_rc comp_msg \<in> {SLURM_COMMUNICATIONS_SEND_ERROR, ESLURM_USER_ID_MISSING,
                  ESLURMD_UID_NOT_FOUND, ESLURMD_GID_NOT_FOUND, ESLURMD_INVALID_ACCT_FREQ} \<longrightarrow>
                calls ''drain_nodes'' tr = [] \<and> calls ''update_front_end'' tr = []
                \<and> calls ''job_complete'' tr = completed False)
           \<and> (slurm_rc comp_msg \<notin> {SLURM_SUCCESS, ESLURM_ALREADY_DONE, ESLURMD_CREDENTIAL_REVOKED,
                  SLURM_COMMUNICATIONS_SEND_ERROR, ESLURM_USER_ID_MISSING,
                  ESLURMD_UID_NOT_FOUND, ESLURMD_GID_NOT_FOUND, ESLURMD_INVALID_ACCT_FREQ}
               \<and> \<not> (HAVE_ALPS_CRAY cfg \<and> slurm_rc comp_msg = ESLURM_RESERVATION_NOT_USABLE) \<longrightarrow>
                (\<not> HAVE_BG cfg \<and> \<not> HAVE_FRONT_END cfg \<longrightarrow>
                   calls ''drain_nodes'' tr =
                     [[str_arg (node_name comp_msg), Str ''batch job complete failure'',
                       U32 (getuid env)]])
                \<and> calls ''job_complete'' tr =
                     completed ((job_rc comp_msg \<noteq> 0) \<and> batch_requeue_permitted (find_job_record ext))))"
proof -
  let ?tr = "slurm_rpc_complete_batch_script cfg env ext msg comp_msg"
  let ?c = "\<lambda>job_requeue.
                 [[U32 (comp_job_id comp_msg), U32 (auth_uid msg), Flag job_requeue, Flag False,
                   U32 (job_rc comp_msg)]]"
  have a: "calls ''drain_nodes'' ?tr = [] \<and> calls ''update_front_end'' ?tr = []
                \<and> calls ''job_complete'' ?tr = ?c False"
    if "slurm_rc comp_msg \<in> {ESLURM_ALREADY_DONE, ESLURMD_CREDENTIAL_REVOKED}"
    using complete_batch_script_calls[OF su wn batch_rc_actions_benign[OF that]] by simp
  have b: "calls ''drain_nodes'' ?tr = [] \<and> calls ''update_front_end'' ?tr = []
                \<and> calls ''job_complete'' ?tr = ?c True"
    if "HAVE_ALPS_CRAY cfg" "slurm_rc comp_msg = ESLURM_RESERVATION_NOT_USABLE"
    using complete_batch_script_calls[OF su wn batch_rc_actions_alps[OF that]] by simp
  have c: "calls ''drain_nodes'' ?tr = [] \<and> calls ''update_front_end'' ?tr = []
                \<and> calls ''job_complete'' ?tr = ?c False"
    if "slurm_rc comp_msg \<in> {SLURM_COMMUNICATIONS_SEND_ERROR, ESLURM_USER_ID_MISSING,
                  ESLURMD_UID_NOT_FOUND, ESLURMD_GID_NOT_FOUND, ESLURMD_INVALID_ACCT_FREQ}"
    using complete_batch_script_calls[OF su wn batch_rc_actions_logged[OF that]] by simp
  have d: "(\<not> HAVE_BG cfg \<and> \<not> HAVE_FRONT_END cfg \<longrightarrow>
                   calls ''drain_nodes'' ?tr =
                     [[str_arg (node_name comp_msg), Str ''batch job complete failure'',
                       U32 (getuid env)]])
                \<and> calls ''job_complete'' ?tr =
                     ?c ((job_rc comp_msg \<noteq> 0) \<and> batch_requeue_permitted (find_job_record ext))"
    if h: "slurm_rc comp_msg \<notin> {SLURM_SUCCESS, ESLURM_ALREADY_DONE, ESLURMD_CREDENTIAL_REVOKED,
                  SLURM_COMMUNICATIONS_SEND_ERROR, ESLURM_USER_ID_MISSING,
                  ESLURMD_UID_NOT_FOUND, ESLURMD_GID_NOT_FOUND, ESLURMD_INVALID_ACCT_FREQ}"
      "\<not> (HAVE_ALPS_CRAY cfg \<and> slurm_rc comp_msg = ESLURM_RESERVATION_NOT_USABLE)"
  proof -
    obtain tr ec bl where r: "batch_rc_actions cfg env ext (find_job_record ext) comp_msg =
       (Call ''slurmctld_diag_stats.jobs_failed++'' [] # tr, ec,
        (job_rc comp_msg \<noteq> 0) \<and> batch_requeue_permitted (find_job_record ext), True, True, bl)"
      and jc: "calls ''job_complete'' tr = []"
      and dr: "HAVE_BG cfg \<or> HAVE_FRONT_END cfg \<or>
          tr = [Call ''drain_nodes''
                 [str_arg (node_name comp_msg), Str ''batch job complete failure'',
                  U32 (getuid env)]]"
      using batch_rc_actions_other[OF h, of env ext "find_job_record ext"] by blast
    show ?thesis
      using complete_batch_script_calls[OF su wn r] jc dr by auto
  qed
  show ?thesis unfolding Let_def using a b c d by blast
qed


text \<open>The example: job 42 on node n1 ends with script return code 1.\<close>

lemma example_batch_facts:
  "validate_slurm_user example_env (auth_uid (example_msg 0 REQUEST_COMPLETE_BATCH_SCRIPT))"
  "\<not> batch_wrong_node (find_job_record (example_ext\<lparr>find_job_record := Some example_job\<rparr>))
       (example_comp rc)"
  "batch_requeue_permitted (find_job_record (example_ext\<lparr>find_job_record := Some example_job\<rparr>))"
  "comp_job_id (example_comp rc) = 42" "job_rc (example_comp rc) = 1"
  "slurm_rc (example_comp rc) = rc" "node_name (example_comp rc) = Some ''n1''"
  "auth_uid (example_msg 0 REQUEST_COMPLETE_BATCH_SCRIPT) = 0"
  "getuid example_env = 990"
  "\<not> batch_wrong_node (Some example_job) (example_comp rc)"
  "batch_requeue_permitted (Some example_job)"
  by (simp_all add: example_msg_def validate_slurm_user_def batch_wrong_node_def example_job_def
      example_comp_def batch_requeue_permitted_def example_env_def)

theorem batch_complete_slurmd_rc_witness:
  "validate_slurm_user example_env (auth_uid (example_msg 0 REQUEST_COMPLETE_BATCH_SCRIPT))
   \<and> \<not> batch_wrong_node (find_job_record (example_ext\<lparr>find_job_record := Some example_job\<rparr>))
         (example_comp ESLURM_ALREADY_DONE)
   \<and> calls ''drain_nodes''
        (slurm_rpc_complete_batch_script example_cfg example_env
           (example_ext\<lparr>find_job_record := Some example_job\<rparr>)
           (example_msg 0 REQUEST_COMPLETE_BATCH_SCRIPT) (example_comp ESLURM_ALREADY_DONE)) = []
   \<and> calls ''job_complete''
        (slurm_rpc_complete_batch_script example_cfg example_env
           (example_ext\<lparr>find_job_record := Some example_job\<rparr>)
           (example_msg 0 REQUEST_COMPLETE_BATCH_SCRIPT) (example_comp ESLURM_ALREADY_DONE))
       = [[U32 42, U32 0, Flag False, Flag False, U32 1]]
   \<and> calls ''drain_nodes''
        (slurm_rpc_complete_batch_script (example_cfg\<lparr>HAVE_ALPS_CRAY := True\<rparr>) example_env
           (example_ext\<lparr>find_job_record := Some example_job\<rparr>)
           (example_msg 0 REQUEST_COMPLETE_BATCH_SCRIPT)
           (example_comp ESLURM_RESERVATION_NOT_USABLE)) = []
   \<and> calls ''job_complete''
        (slurm_rpc_complete_batch_script (example_cfg\<lparr>HAVE_ALPS_CRAY := True\<rparr>) example_env
           (example_ext\<lparr>find_job_record := Some example_job\<rparr>)
           (example_msg 0 REQUEST_COMPLETE_BATCH_SCRIPT)
           (example_comp ESLURM_RESERVATION_NOT_USABLE))
       = [[U32 42, U32 0, Flag True, Flag False, U32 1]]
   \<and> calls ''drain_nodes''
        (slurm_rpc_complete_batch_script example_cfg example_env
           (example_ext\<lparr>find_job_record := Some example_job\<rparr>)
           (example_msg 0 REQUEST_COMPLETE_BATCH_SCRIPT) (example_comp ESLURMD_UID_NOT_FOUND)) = []
   \<and> calls ''job_complete''
        (slurm_rpc_complete_batch_script example_cfg example_env
           (example_ext\<lparr>find_job_record := Some example_job\<rparr>)
           (example_msg 0 REQUEST_COMPLETE_BATCH_SCRIPT) (example_comp ESLURMD_UID_NOT_FOUND))
       = [[U32 42, U32 0, Flag False, Flag False, U32 1]]
   \<and> calls ''drain_nodes''
        (slurm_rpc_complete_batch_script example_cfg example_env
           (example_ext\<lparr>find_job_record := Some example_job\<rparr>)
           (example_msg 0 REQUEST_COMPLETE_BATCH_SCRIPT) (example_comp (Errno 4001)))
       = [[Str ''n1'', Str ''batch job complete failure'', U32 990]]
   \<and> calls ''job_complete''
        (slurm_rpc_complete_batch_script example_cfg example_env
           (example_ext\<lparr>find_job_record := Some example_job\<rparr>)
           (example_msg 0 REQUEST_COMPLETE_BATCH_SCRIPT) (example_comp (Errno 4001)))
       = [[U32 42, U32 0, Flag True, Flag False, U32 1]]"
proof -
  let ?x = "example_ext\<lparr>find_job_record := Some example_job\<rparr>"
  let ?m = "example_msg 0 REQUEST_COMPLETE_BATCH_SCRIPT"
  note f = example_batch_facts
  have c: "HAVE_ALPS_CRAY (example_cfg\<lparr>HAVE_ALPS_CRAY := True\<rparr>)"
    "\<not> HAVE_ALPS_CRAY example_cfg" "\<not> HAVE_BG example_cfg" "\<not> HAVE_FRONT_END example_cfg"
    by (simp_all add: example_cfg_def)
  have 1: "calls ''drain_nodes''
        (slurm_rpc_complete_batch_script example_cfg example_env ?x ?m (example_comp ESLURM_ALREADY_DONE)) = []
      \<and> calls ''job_complete''
        (slurm_rpc_complete_batch_script example_cfg example_env ?x ?m (example_comp ESLURM_ALREADY_DONE))
       = [[U32 42, U32 0, Flag False, Flag False, U32 1]]"
    using batch_complete_slurmd_rc[OF f(1) f(2)[of ESLURM_ALREADY_DONE], where cfg = example_cfg]
    by (simp add: Let_def f)
  have 2: "calls ''drain_nodes''
        (slurm_rpc_complete_batch_script (example_cfg\<lparr>HAVE_ALPS_CRAY := True\<rparr>) example_env ?x ?m
           (example_comp ESLURM_RESERVATION_NOT_USABLE)) = []
      \<and> calls ''job_complete''
        (slurm_rpc_complete_batch_script (example_cfg\<lparr>HAVE_ALPS_CRAY := True\<rparr>) example_env ?x ?m
           (example_comp ESLURM_RESERVATION_NOT_USABLE))
       = [[U32 42, U32 0, Flag True, Flag False, U32 1]]"
    using batch_complete_slurmd_rc[OF f(1) f(2)[of ESLURM_RESERVATION_NOT_USABLE],
        where cfg = "example_cfg\<lparr>HAVE_ALPS_CRAY := True\<rparr>"]
    by (simp add: Let_def f c)
  have 3: "calls ''drain_nodes''
        (slurm_rpc_complete_batch_script example_cfg example_env ?x ?m (example_comp ESLURMD_UID_NOT_FOUND)) = []
      \<and> calls ''job_complete''
        (slurm_rpc_complete_batch_script example_cfg example_env ?x ?m (example_comp ESLURMD_UID_NOT_FOUND))
       = [[U32 42, U32 0, Flag False, Flag False, U32 1]]"
    using batch_complete_slurmd_rc[OF f(1) f(2)[of ESLURMD_UID_NOT_FOUND], where cfg = example_cfg]
    by (simp add: Let_def f)
  have 4: "calls ''drain_nodes''
        (slurm_rpc_complete_batch_script example_cfg example_env ?x ?m (example_comp (Errno 4001)))
       = [[Str ''n1'', Str ''batch job complete failure'', U32 990]]
      \<and> calls ''job_complete''
        (slurm_rpc_complete_batch_script example_cfg example_env ?x ?m (example_comp (Errno 4001)))
       = [[U32 42, U32 0, Flag True, Flag False, U32 1]]"
    using batch_complete_slurmd_rc[OF f(1) f(2)[of "Errno 4001"], where cfg = example_cfg]
    by (simp add: Let_def f c str_arg_def)
  show ?thesis using f(1) f(2)[of ESLURM_ALREADY_DONE] 1 2 3 4 by blast
qed

text \<open>
  C2 as stated fails for ReservationNotUsable: in the default build it is not among the
  non-fatal codes, the reporting node n1 is drained.
\<close>

theorem reservation_not_usable_drains_node:
  "slurm_rpc_complete_batch_script example_cfg example_env
     (example_ext\<lparr>find_job_record := Some example_job\<rparr>)
     (example_msg 0 REQUEST_COMPLETE_BATCH_SCRIPT) (example_comp ESLURM_RESERVATION_NOT_USABLE)
   = [Call ''slurmctld_diag_stats.jobs_failed++'' [],
      Call ''drain_nodes'' [Str ''n1'', Str ''batch job complete failure'', U32 990],
      Call ''job_complete'' [U32 42, U32 0, Flag True, Flag False, U32 1],
      Call ''slurmctld_diag_stats.jobs_completed++'' [],
      Call ''replace_batch_job'' [],
      Call ''schedule_job_save'' [],
      Call ''schedule_node_save'' []]"
  by (simp add: slurm_rpc_complete_batch_script_def Let_def example_batch_facts
      batch_rc_actions_def batch_mark_complete_def batch_accounting_def MAX_rc_def
      example_cfg_def example_ext_def example_msg_def str_arg_def
      REQUEST_COMPLETE_BATCH_SCRIPT_def REQUEST_COMPLETE_BATCH_JOB_def)


section \<open>Claims about the identity checks of the handlers\<close>

text \<open>
  C3 (as amended).  For a caller whose authenticated uid is not the slurm user (root or
  the daemon's own uid): node registration is answered with UserIdMissing, epilog
  complete and batch complete return at once, and none of the three makes any call;
  ping has no identity check and is answered with success, without any call; the step
  complete handler has no identity check of its own, it first hands the caller's uid to
  \<^verbatim>\<open>step_partial_comp\<close>.
\<close>

theorem node_origin_rpcs_other_callers:
  assumes "\<not> validate_slurm_user env (auth_uid msg)"
  shows "slurm_rpc_node_registration cfg env ext msg = [Send (Rc_msg ESLURM_USER_ID_MISSING)]
       \<and> slurm_rpc_epilog_complete env ext msg epilog_msg = []
       \<and> slurm_rpc_complete_batch_script cfg env ext msg comp_msg = []
       \<and> slurm_rpc_ping env msg = [Send (Rc_msg SLURM_SUCCESS)]
       \<and> take 1 (slurm_rpc_step_complete env ext msg req)
           = [Call ''step_partial_comp'' [U32 (auth_uid msg)]]"
  using assms
  by (simp add: slurm_rpc_node_registration_def slurm_rpc_epilog_complete_def
      slurm_rpc_complete_batch_script_def slurm_rpc_ping_def slurm_rpc_step_complete_def
      Let_def split: prod.splits)

theorem node_origin_rpcs_other_callers_witness:
  "\<not> validate_slurm_user example_env (auth_uid (example_msg 1000 MESSAGE_NODE_REGISTRATION_STATUS))
   \<and> slurm_rpc_node_registration example_cfg example_env example_ext
        (example_msg 1000 MESSAGE_NODE_REGISTRATION_STATUS) = [Send (Rc_msg ESLURM_USER_ID_MISSING)]
   \<and> slurm_rpc_epilog_complete example_env example_ext
        (example_msg 1000 MESSAGE_NODE_REGISTRATION_STATUS)
        \<lparr>epilog_job_id = 42, epilog_node_name = ''n1'', return_code = 0\<rparr> = []
   \<and> slurm_rpc_complete_batch_script example_cfg example_env example_ext
        (example_msg 1000 MESSAGE_NODE_REGISTRATION_STATUS) (example_comp SLURM_SUCCESS) = []"
proof -
  have h: "\<not> validate_slurm_user example_env
             (auth_uid (example_msg 1000 MESSAGE_NODE_REGISTRATION_STATUS))"
    by (simp add: example_msg_def)
  show ?thesis
    using h node_origin_rpcs_other_callers[OF h, of example_cfg example_ext
        "\<lparr>epilog_job_id = 42, epilog_node_name = ''n1'', return_code = 0\<rparr>"
        "example_comp SLURM_SUCCESS"]
    by simp
qed

text \<open>
  C3 as stated fails for ping and for step complete: uid 1000 is not the slurm user, its
  ping is served like any other, and its step complete, once \<^verbatim>\<open>step_partial_comp\<close>
  reports the step as done, completes the step.
\<close>

theorem ping_and_step_complete_not_gated:
  "\<not> validate_slurm_user example_env (auth_uid (example_msg 1000 REQUEST_PING))
   \<and> slurm_rpc_ping example_env (example_msg 1000 REQUEST_PING) = [Send (Rc_msg SLURM_SUCCESS)]
   \<and> slurm_rpc_step_complete example_env example_ext (example_msg 1000 REQUEST_STEP_COMPLETE)
        \<lparr>req_job_id = 42, job_step_id = 0\<rparr>
       = [Call ''step_partial_comp'' [U32 1000],
          Call ''job_step_complete'' [U32 42, U32 0, U32 1000, Flag False, U32 0],
          Send (Rc_msg SLURM_SUCCESS),
          Call ''schedule_job_save'' []]"
  by (simp add: slurm_rpc_ping_def slurm_rpc_step_complete_def example_msg_def example_ext_def
      SLURM_BATCH_SCRIPT_def)

text \<open>
  C4 (as amended).  Reconfigure, shutdown, node update and partition create, update and
  delete call their operation only for a super user; reservation create, update and
  delete only for an operator (a super user is one).  A caller below that level gets the
  return code UserIdMissing (from reconfigure InProgress instead while a reconfiguration
  or a shutdown is in progress) and the operation of the request is not called.
\<close>

theorem admin_rpcs_authorization:
  "(\<not> validate_super_user env (auth_uid msg) \<longrightarrow>
       slurm_rpc_reconfigure_controller env ext msg =
         [Send (Rc_msg (if in_progress ext \<or> shutdown_time ext then EINPROGRESS
                        else ESLURM_USER_ID_MISSING))]
     \<and> slurm_rpc_shutdown_controller env ext msg shutdown_options =
         [Send (Rc_msg ESLURM_USER_ID_MISSING)]
     \<and> responses (slurm_rpc_update_node env ext msg node_names) =
         [Send (Rc_msg ESLURM_USER_ID_MISSING)]
     \<and> calls ''update_node'' (slurm_rpc_update_node env ext msg node_names) = []
     \<and> slurm_rpc_update_partition env ext msg name = [Send (Rc_msg ESLURM_USER_ID_MISSING)]
     \<and> slurm_rpc_delete_partition env ext msg name = [Send (Rc_msg ESLURM_USER_ID_MISSING)])
   \<and> (\<not> validate_operator env (auth_uid msg) \<longrightarrow>
       slurm_rpc_resv_create env ext msg name = [Send (Rc_msg ESLURM_USER_ID_MISSING)]
     \<and> slurm_rpc_resv_update env ext msg name = [Send (Rc_msg ESLURM_USER_ID_MISSING)]
     \<and> slurm_rpc_resv_delete env ext msg name = [Send (Rc_msg ESLURM_USER_ID_MISSING)])"
  by (simp add: slurm_rpc_reconfigure_controller_def slurm_rpc_shutdown_controller_def
      slurm_rpc_update_node_def slurm_rpc_update_partition_def slurm_rpc_delete_partition_def
      slurm_rpc_resv_create_def slurm_rpc_resv_update_def slurm_rpc_resv_delete_def Let_def)

theorem admin_rpcs_authorization_witness:
  "\<not> validate_super_user example_env (auth_uid (example_msg 1000 REQUEST_RECONFIGURE))
   \<and> \<not> validate_operator example_env (auth_uid (example_msg 1000 REQUEST_RECONFIGURE))
   \<and> slurm_rpc_reconfigure_controller example_env example_ext (example_msg 1000 REQUEST_RECONFIGURE)
       = [Send (Rc_msg ESLURM_USER_ID_MISSING)]
   \<and> slurm_rpc_shutdown_controller example_env example_ext (example_msg 1000 REQUEST_RECONFIGURE) 0
       = [Send (Rc_msg ESLURM_USER_ID_MISSING)]
   \<and> calls ''update_node''
        (slurm_rpc_update_node example_env example_ext (example_msg 1000 REQUEST_RECONFIGURE) ''n1'')
       = []
   \<and> slurm_rpc_update_partition example_env example_ext (example_msg 1000 REQUEST_RECONFIGURE) ''p''
       = [Send (Rc_msg ESLURM_USER_ID_MISSING)]
   \<and> slurm_rpc_delete_partition example_env example_ext (example_msg 1000 REQUEST_RECONFIGURE) ''p''
       = [Send (Rc_msg ESLURM_USER_ID_MISSING)]
   \<and> slurm_rpc_resv_create example_env example_ext (example_msg 1000 REQUEST_RECONFIGURE) ''p''
       = [Send (Rc_msg ESLURM_USER_ID_MISSING)]
   \<and> slurm_rpc_resv_update example_env example_ext (example_msg 1000 REQUEST_RECONFIGURE) ''p''
       = [Send (Rc_msg ESLURM_USER_ID_MISSING)]
   \<and> slurm_rpc_resv_delete example_env example_ext (example_msg 1000 REQUEST_RECONFIGURE) ''p''
       = [Send (Rc_msg ESLURM_USER_ID_MISSING)]"
proof -
  have h: "\<not> validate_super_user example_env (auth_uid (example_msg 1000 REQUEST_RECONFIGURE))"
    "\<not> validate_operator example_env (auth_uid (example_msg 1000 REQUEST_RECONFIGURE))"
    by (simp_all add: example_msg_def)
  have e: "\<not> (in_progress example_ext \<or> shutdown_time example_ext)"
    by (simp add: example_ext_def)
  show ?thesis
    using h e
      admin_rpcs_authorization[of example_env "example_msg 1000 REQUEST_RECONFIGURE" example_ext
        0 "''n1''" "''p''"]
    by simp
qed

text \<open>
  C4 as stated fails for the reservation operations: uid 2000 is an operator and not a
  super user, and its request creates the reservation.
\<close>

theorem operator_creates_reservation:
  "\<not> validate_super_user example_env (auth_uid (example_msg 2000 REQUEST_CREATE_RESERVATION))
   \<and> slurm_rpc_resv_create example_env example_ext
        (example_msg 2000 REQUEST_CREATE_RESERVATION) ''maint''
       = [Call ''create_resv'' [Str ''maint''],
          Send (RESPONSE_CREATE_RESERVATION ''maint''),
          Call ''queue_job_scheduler'' []]"
  by (simp add: slurm_rpc_resv_create_def example_msg_def example_ext_def)

text \<open>
  The node update handler ends with its three calls on every path, after the reply to a
  refused caller as well.
\<close>

lemma update_node_refused_trace:
  "slurm_rpc_update_node example_env example_ext (example_msg 1000 REQUEST_UPDATE_NODE) ''n1''
   = [Send (Rc_msg ESLURM_USER_ID_MISSING),
      Call ''schedule_node_save'' [], Call ''queue_job_scheduler'' [],
      Call ''trigger_reconfig'' []]"
  by (simp add: slurm_rpc_update_node_def example_msg_def)

section \<open>Claims about the responses and about job ids\<close>

section \<open>Claims about the responses of the handlers\<close>

lemma replies_once_unless_Cons_Call [simp]:
  "g \<noteq> f \<Longrightarrow> replies_once_unless f (Call g args # tr) = replies_once_unless f tr"
  by (simp add: replies_once_unless_def)


lemma replies_once_unless_single [simp]: "replies_once_unless f [Send r]"
  by (simp add: replies_once_unless_def)

lemma replies_once_unless_length:
  "replies_once_unless f tr \<Longrightarrow> calls f tr = [] \<Longrightarrow> length (responses tr) = 1"
  by (simp add: replies_once_unless_def)



















end
